theory Spec2Isabelle
  imports Main "HOL-Library.Word"
begin

section \<open>Fragment3D: the asset-generation pipeline of backend/routes/create.js and assets.js\<close>

text \<open>
  The development embeds the route handlers of the backend as HOL functions.
  A Node \<^verbatim>\<open>Buffer\<close> is a list of bytes, a JavaScript string a list of
  characters (code units below 256), a Mongoose subdocument a record, the user's
  \<^verbatim>\<open>assets\<close> array a list of such records, and the two upload directories
  are maps from file names to file contents.
\<close>

subsection \<open>Format sniffer: \<^verbatim>\<open>detectMimeFromBuffer\<close>\<close>

type_synonym byte = "8 word"
type_synonym buffer = "byte list"

text \<open>The object \<^verbatim>\<open>{ mime, ext }\<close> the sniffer returns; \<^verbatim>\<open>null\<close> is \<open>None\<close>.\<close>

record detected =
  mime :: string
  ext :: string

text \<open>
  \<^verbatim>\<open>buf.slice(a, b)\<close> on a buffer of at least \<open>b\<close> bytes, and the ASCII
  strings the slices are compared with, as bytes. (\<^verbatim>\<open>Buffer.toString()\<close> decodes
  UTF-8; a four-byte slice decodes to a four-letter ASCII string exactly when its bytes are
  those four letters, so the comparison of strings is the comparison of bytes.)
\<close>

definition slice :: "nat \<Rightarrow> nat \<Rightarrow> 'a list \<Rightarrow> 'a list" where
  "slice a b xs = take (b - a) (drop a xs)"

definition ascii_RIFF :: buffer where
  "ascii_RIFF = [0x52, 0x49, 0x46, 0x46]"

definition ascii_WEBP :: buffer where
  "ascii_WEBP = [0x57, 0x45, 0x42, 0x50]"

definition ascii_glTF :: buffer where
  "ascii_glTF = [0x67, 0x6C, 0x54, 0x46]"

definition detectMimeFromBuffer :: "buffer \<Rightarrow> detected option" where
  "detectMimeFromBuffer buf =
     (if length buf < 12 then None
      else if buf ! 0 = 0x89 \<and> buf ! 1 = 0x50 \<and> buf ! 2 = 0x4E \<and> buf ! 3 = 0x47
        then Some \<lparr>mime = ''image/png'', ext = ''png''\<rparr>
      else if buf ! 0 = 0xFF \<and> buf ! 1 = 0xD8
        then Some \<lparr>mime = ''image/jpeg'', ext = ''jpg''\<rparr>
      else if slice 0 4 buf = ascii_RIFF \<and> slice 8 12 buf = ascii_WEBP
        then Some \<lparr>mime = ''image/webp'', ext = ''webp''\<rparr>
      else if slice 0 4 buf = ascii_glTF
        then Some \<lparr>mime = ''model/gltf-binary'', ext = ''glb''\<rparr>
      else None)"

subsection \<open>JavaScript values and strings\<close>

text \<open>
  Numbers are the integers and \<^verbatim>\<open>NaN\<close>: seeds, step counts and face counts
  are integers, and rounding of doubles is not part of any property below. A primitive value
  is what a form field or a remote reply can hold; \<open>NonPrimitive\<close> stands for any
  object, array or function where only its type and truthiness are inspected.
\<close>

datatype number = NaN | Num int

datatype prim = VUndefined | VNull | VBool bool | VNum number | VStr string

datatype jsval = Prim prim | NonPrimitive

fun truthy :: "prim \<Rightarrow> bool" where
  "truthy VUndefined = False"
| "truthy VNull = False"
| "truthy (VBool b) = b"
| "truthy (VNum NaN) = False"
| "truthy (VNum (Num n)) = (n \<noteq> 0)"
| "truthy (VStr s) = (s \<noteq> [])"

fun truthy_val :: "jsval \<Rightarrow> bool" where
  "truthy_val (Prim p) = truthy p"
| "truthy_val NonPrimitive = True"

text \<open>\<^verbatim>\<open>a ?? b\<close>: the right operand when the left is null or undefined.\<close>

fun nullish :: "prim \<Rightarrow> prim \<Rightarrow> prim" where
  "nullish VUndefined d = d"
| "nullish VNull d = d"
| "nullish v d = v"

text \<open>A destructuring default \<^verbatim>\<open>{ x = d }\<close> applies to undefined only.\<close>

fun destructure_default :: "prim \<Rightarrow> prim \<Rightarrow> prim" where
  "destructure_default VUndefined d = d"
| "destructure_default v d = v"

text \<open>
  \<^verbatim>\<open>Number(v)\<close> on a primitive. The conversion of a string is the
  language's \<^verbatim>\<open>StringToNumber\<close>; it is taken as the parameter \<open>str_num\<close>,
  so that every result below holds for the conversion as the runtime implements it.
\<close>

fun js_Number :: "(string \<Rightarrow> number) \<Rightarrow> prim \<Rightarrow> number" where
  "js_Number str_num VUndefined = NaN"
| "js_Number str_num VNull = Num 0"
| "js_Number str_num (VBool b) = Num (if b then 1 else 0)"
| "js_Number str_num (VNum n) = n"
| "js_Number str_num (VStr s) = str_num s"

definition startsWith :: "string \<Rightarrow> string \<Rightarrow> bool" where
  "startsWith s p = (take (length p) s = p)"

fun js_includes :: "string \<Rightarrow> string \<Rightarrow> bool" where
  "js_includes [] p = (p = [])"
| "js_includes (c # cs) p = (startsWith (c # cs) p \<or> js_includes cs p)"

text \<open>
  \<^verbatim>\<open>path.basename\<close> (POSIX): trailing slashes are dropped, then the part after
  the last slash is returned.
\<close>

definition basename :: "string \<Rightarrow> string" where
  "basename p =
     rev (takeWhile (\<lambda>c. c \<noteq> CHR ''/'') (dropWhile (\<lambda>c. c = CHR ''/'') (rev p)))"

text \<open>\<^verbatim>\<open>s.split(c)\<close> for a one-character separator: never the empty array.\<close>

fun split :: "char \<Rightarrow> string \<Rightarrow> string list" where
  "split c [] = [[]]"
| "split c (x # xs) =
     (if x = c then [] # split c xs
      else (case split c xs of [] \<Rightarrow> [[x]] | p # ps \<Rightarrow> (x # p) # ps))"

text \<open>
  The character classes of the regular expressions: \<^verbatim>\<open>\s\<close> (on code units
  below 256: tab, line feed, vertical tab, form feed, carriage return, space, no-break
  space), \<^verbatim>\<open>[A-Za-z0-9+/=]\<close>, \<^verbatim>\<open>\d\<close>, and the line terminators that
  \<^verbatim>\<open>.\<close> does not match.
\<close>

definition code :: "char \<Rightarrow> nat" where
  "code c = of_char c"

definition is_space :: "char \<Rightarrow> bool" where
  "is_space c = (code c \<in> {9, 10, 11, 12, 13, 32, 160})"

definition is_digit :: "char \<Rightarrow> bool" where
  "is_digit c = (48 \<le> code c \<and> code c \<le> 57)"

definition is_base64_char :: "char \<Rightarrow> bool" where
  "is_base64_char c =
     ((65 \<le> code c \<and> code c \<le> 90) \<or> (97 \<le> code c \<and> code c \<le> 122) \<or> is_digit c
      \<or> c = CHR ''+'' \<or> c = CHR ''/'' \<or> c = CHR ''='')"

definition is_line_terminator :: "char \<Rightarrow> bool" where
  "is_line_terminator c = (code c = 10 \<or> code c = 13)"

text \<open>\<^verbatim>\<open>/^[A-Za-z0-9+/=]+$/.test(s)\<close> and \<^verbatim>\<open>/^\d+$/.test(s)\<close>.\<close>

definition isBase64 :: "string \<Rightarrow> bool" where
  "isBase64 s = (s \<noteq> [] \<and> list_all is_base64_char s)"

definition all_digits :: "string \<Rightarrow> bool" where
  "all_digits s = (s \<noteq> [] \<and> list_all is_digit s)"

text \<open>\<^verbatim>\<open>s.replace(/\s/g, "")\<close>.\<close>

definition strip_spaces :: "string \<Rightarrow> string" where
  "strip_spaces s = filter (\<lambda>c. \<not> is_space c) s"

text \<open>
  \<^verbatim>\<open>s.match(/^data:(.+);base64,(.+)$/)\<close>: the two groups, or \<open>None\<close>
  when there is no match. Both groups are non-empty and, like everything \<^verbatim>\<open>.\<close>
  matches, free of line terminators; the first group is greedy, so the separator taken is
  the last \<^verbatim>\<open>;base64,\<close> that leaves a non-empty second group.
\<close>

definition match_data_uri :: "string \<Rightarrow> (string \<times> string) option" where
  "match_data_uri s =
     (if \<not> startsWith s ''data:'' then None
      else let t = drop 5 s in
        if list_ex is_line_terminator t then None
        else (case filter (\<lambda>i. startsWith (drop i t) '';base64,'' \<and> i + 8 < length t)
                     (rev [1 ..< length t]) of
                [] \<Rightarrow> None
              | i # _ \<Rightarrow> Some (take i t, drop (i + 8) t)))"

text \<open>Decimal rendering of a number in a template string.\<close>

fun show_nat :: "nat \<Rightarrow> string" where
  "show_nat n =
     (if n < 10 then [char_of (48 + n)]
      else show_nat (n div 10) @ [char_of (48 + n mod 10)])"

declare show_nat.simps [simp del]

definition show_int :: "int \<Rightarrow> string" where
  "show_int n = (if n < 0 then ''-'' @ show_nat (nat (- n)) else show_nat (nat n))"

text \<open>
  \<^verbatim>\<open>Buffer.from(s, "utf8")\<close> for a string of code units below 256: one byte below
  128, two bytes from 128 on.
\<close>

definition utf8 :: "string \<Rightarrow> buffer" where
  "utf8 s =
     concat (map (\<lambda>c. if code c < 128 then [of_nat (code c)]
                       else [of_nat (192 + code c div 64), of_nat (128 + code c mod 64)]) s)"

subsection \<open>Asset records and the stores\<close>

text \<open>
  The asset subdocument as \<^verbatim>\<open>assetSchema\<close> of \<^verbatim>\<open>models/User.js\<close>
  declares it: \<^verbatim>\<open>_id\<close>, \<^verbatim>\<open>imageUrl\<close>, \<^verbatim>\<open>glbUrl\<close>,
  \<^verbatim>\<open>status\<close>, \<^verbatim>\<open>meta\<close> (an \<^verbatim>\<open>Object\<close>, with the
  keys the routes put there) and \<^verbatim>\<open>createdAt\<close>. \<^verbatim>\<open>null\<close> and an
  absent key are \<open>None\<close>. Identifiers (Mongoose \<^verbatim>\<open>ObjectId\<close>s) and dates
  are natural numbers supplied by the environment.
\<close>

datatype status = Pending | Processing | Ready | Failed

record meta =
  seed :: "number option"
  uploadedAt :: "nat option"
  segmentedImage :: "string option"

record asset =
  aid :: nat
  imageUrl :: string
  glbUrl :: "string option"
  status :: status
  meta :: meta
  createdAt :: nat

text \<open>
  The world the handlers act on: the users collection (user id to the user's
  \<^verbatim>\<open>assets\<close> array) and the two upload directories
  \<^verbatim>\<open>uploads/images\<close> and \<^verbatim>\<open>uploads/glb\<close> (file name to bytes).
\<close>

type_synonym dir = "string \<rightharpoonup> buffer"

record world =
  users :: "nat \<rightharpoonup> asset list"
  imagesDir :: dir
  glbDir :: dir

text \<open>\<^verbatim>\<open>assets.id(assetId)\<close>: the first subdocument with that id, if any.\<close>

definition by_id :: "asset list \<Rightarrow> nat \<Rightarrow> asset option" where
  "by_id as i = find (\<lambda>a. aid a = i) as"

text \<open>The array with its first element of the given asset's id replaced by that asset.\<close>

fun put_asset :: "asset list \<Rightarrow> asset \<Rightarrow> asset list" where
  "put_asset [] a = []"
| "put_asset (b # bs) a = (if aid b = aid a then a # bs else b # put_asset bs a)"

subsection \<open>Assignments and saves of Mongoose documents\<close>

text \<open>
  An assignment \<^verbatim>\<open>doc.name = value\<close> on an asset subdocument, as the handlers
  make them after creation. The schema is strict: a name it does not declare
  (\<^verbatim>\<open>updatedAt\<close>, \<^verbatim>\<open>generatedAt\<close>) is no path of the document, and a
  value assigned to it is neither saved nor part of the document sent in a reply.
\<close>

datatype field_value = FString string | FStatus status | FDate nat

fun assign :: "asset \<Rightarrow> string \<Rightarrow> field_value \<Rightarrow> asset" where
  "assign a name (FString v) = (if name = ''glbUrl'' then a\<lparr>glbUrl := Some v\<rparr> else a)"
| "assign a name (FStatus v) = (if name = ''status'' then a\<lparr>status := v\<rparr> else a)"
| "assign a name (FDate v) = (if name = ''createdAt'' then a\<lparr>createdAt := v\<rparr> else a)"

text \<open>
  The four assignments both routes make when a GLB is attached:
  \<^verbatim>\<open>glbUrl\<close>, \<^verbatim>\<open>status = "ready"\<close>,
  \<^verbatim>\<open>updatedAt = new Date()\<close>, \<^verbatim>\<open>generatedAt = new Date()\<close>.
\<close>

definition set_glb :: "asset \<Rightarrow> string \<Rightarrow> nat \<Rightarrow> asset" where
  "set_glb a url now =
     assign (assign (assign (assign a ''glbUrl'' (FString url)) ''status'' (FStatus Ready))
               ''updatedAt'' (FDate now)) ''generatedAt'' (FDate now)"

text \<open>
  \<^verbatim>\<open>sub.meta = sub.meta || {}; sub.meta.segmentedImage = url\<close>: the object held
  in \<^verbatim>\<open>meta\<close> is changed in place.
\<close>

definition set_segmented :: "asset \<Rightarrow> string \<Rightarrow> asset" where
  "set_segmented a url = a\<lparr>meta := (meta a)\<lparr>segmentedImage := Some url\<rparr>\<rparr>"

text \<open>
  What a \<^verbatim>\<open>save()\<close> sends. Mongoose sends the paths it has recorded as
  modified. \<^verbatim>\<open>meta\<close> is a mixed path: a change inside the object, without
  \<^verbatim>\<open>markModified\<close>, is not recorded, so of a subdocument changed in memory
  the save sends everything but that change (\<open>tracked\<close>); re-assigning a path its own
  value records nothing. A save with nothing recorded sends nothing.
\<close>

datatype db_write = NoSave | Save "asset list"

definition tracked :: "asset \<Rightarrow> asset \<Rightarrow> asset" where
  "tracked old new = new\<lparr>meta := meta old\<rparr>"

text \<open>
  The save of a user document that was read and changed within one step: the stored
  array with the subdocument replaced.
\<close>

definition save_fresh :: "asset list \<Rightarrow> asset \<Rightarrow> asset \<Rightarrow> db_write" where
  "save_fresh as old new =
     (if tracked old new = old then NoSave else Save (put_asset as (tracked old new)))"

text \<open>
  An exception thrown inside a handler; every one is caught by a \<^verbatim>\<open>try\<close> of
  the handler. \<open>TypeError\<close> is a property read or a method call on \<^verbatim>\<open>null\<close>,
  \<^verbatim>\<open>undefined\<close> or a value without that method, \<open>FsError\<close> a failed
  \<^verbatim>\<open>fs.readFileSync\<close>, \<open>RemoteError\<close> a failed call of the remote
  service, \<open>VersionError\<close> a save the store refuses.
\<close>

datatype exn = TypeError | FsError | RemoteError | VersionError

text \<open>
  The save of the document an upload loaded when it began, issued after the created asset
  was not found in the user read again. The asset can be missing only because a deletion
  pulled it from the array, and that save advanced the version of the stored document. An
  update of a subdocument is addressed by its position in the array and carries the
  version of the document it comes from: the store refuses it, and the save throws. A save
  with nothing recorded sends nothing and succeeds.
\<close>

definition save_stale :: "asset \<Rightarrow> asset \<Rightarrow> exn + db_write" where
  "save_stale old new = (if tracked old new = old then Inr NoSave else Inl VersionError)"

text \<open>An HTTP error reply \<^verbatim>\<open>res.status(code).json({ error })\<close>.\<close>

datatype http_error = Http nat string

subsection \<open>Route handlers of \<^verbatim>\<open>routes/assets.js\<close>\<close>

text \<open>
  The request as the handlers read it, after the \<^verbatim>\<open>auth\<close> middleware has set
  \<^verbatim>\<open>req.userId\<close> and multer has stored an uploaded file under
  \<^verbatim>\<open>file_name\<close>. \<open>body_glbUrl\<close> is \<^verbatim>\<open>req.body.glbUrl\<close>:
  a primitive value (undefined when absent), or an object or array of a JSON body.
\<close>

record request =
  userId :: nat
  protocol :: string
  host :: string
  file_name :: "string option"
  body_glbUrl :: jsval

definition image_url :: "string \<Rightarrow> string \<Rightarrow> string \<Rightarrow> string" where
  "image_url proto h name = proto @ ''://'' @ h @ ''/uploads/images/'' @ name"

definition glb_url :: "string \<Rightarrow> string \<Rightarrow> string \<Rightarrow> string" where
  "glb_url proto h name = proto @ ''://'' @ h @ ''/uploads/glb/'' @ name"

text \<open>\<^verbatim>\<open>POST /api/assets/upload-image\<close>: a new pending asset, newest first.\<close>

definition upload_image :: "world \<Rightarrow> request \<Rightarrow> nat \<Rightarrow> nat \<Rightarrow> http_error + asset \<times> world" where
  "upload_image w req new_id now =
     (case file_name req of
        None \<Rightarrow> Inl (Http 400 ''No image uploaded'')
      | Some name \<Rightarrow>
          (case users w (userId req) of
             None \<Rightarrow> Inl (Http 404 ''User not found'')
           | Some as \<Rightarrow>
               let a = \<lparr>aid = new_id, imageUrl = image_url (protocol req) (host req) name,
                        glbUrl = None, status = Pending,
                        meta = \<lparr>seed = None, uploadedAt = None, segmentedImage = None\<rparr>,
                        createdAt = now\<rparr>
               in Inr (a, w\<lparr>users := (users w)(userId req \<mapsto> a # as)\<rparr>)))"

text \<open>
  The string Mongoose casts a truthy primitive to when it is assigned to the
  \<^verbatim>\<open>String\<close> path \<^verbatim>\<open>glbUrl\<close>. A plain object or an array is not
  cast: the path is marked invalid, and the save fails validation.
\<close>

fun cast_string :: "prim \<Rightarrow> string" where
  "cast_string (VStr v) = v"
| "cast_string (VNum (Num n)) = show_int n"
| "cast_string (VNum NaN) = ''NaN''"
| "cast_string (VBool b) = (if b then ''true'' else ''false'')"
| "cast_string VNull = []"
| "cast_string VUndefined = []"

text \<open>The effect of what a save sends on the user's stored array.\<close>

fun commit :: "world \<Rightarrow> nat \<Rightarrow> db_write \<Rightarrow> world" where
  "commit w uid NoSave = w"
| "commit w uid (Save d) = w\<lparr>users := (users w)(uid \<mapsto> d)\<rparr>"

text \<open>
  \<^verbatim>\<open>POST /api/assets/:assetId/attach-glb\<close>. An uploaded file wins over
  \<^verbatim>\<open>req.body.glbUrl\<close>, which is taken when it is truthy. The four assignments
  and the save follow, and the reply carries the document; nothing reads the file or the
  URL's target. A save that fails validation throws, and the \<^verbatim>\<open>catch\<close> of the
  handler answers 500.
\<close>

definition attach_glb :: "world \<Rightarrow> request \<Rightarrow> nat \<Rightarrow> nat \<Rightarrow> http_error + asset \<times> world" where
  "attach_glb w req assetId now =
     (case users w (userId req) of
        None \<Rightarrow> Inl (Http 404 ''User not found'')
      | Some as \<Rightarrow>
          (case by_id as assetId of
             None \<Rightarrow> Inl (Http 404 ''Asset not found'')
           | Some a \<Rightarrow>
               (let attach = (\<lambda>u. Inr (set_glb a u now,
                                      commit w (userId req)
                                        (save_fresh as a (set_glb a u now))))
                in case file_name req of
                     Some name \<Rightarrow> attach (glb_url (protocol req) (host req) name)
                   | None \<Rightarrow>
                       (case body_glbUrl req of
                          Prim p \<Rightarrow>
                            if truthy p then attach (cast_string p)
                            else Inl (Http 400 ''No GLB file or URL provided'')
                        | NonPrimitive \<Rightarrow> Inl (Http 500 ''Server error attaching GLB'')))))"

text \<open>\<^verbatim>\<open>GET /api/assets/:assetId\<close>.\<close>

definition get_asset :: "world \<Rightarrow> nat \<Rightarrow> nat \<Rightarrow> http_error + asset" where
  "get_asset w uid assetId =
     (case users w uid of
        None \<Rightarrow> Inl (Http 404 ''User not found'')
      | Some as \<Rightarrow>
          (case by_id as assetId of
             None \<Rightarrow> Inl (Http 404 ''Asset not found'')
           | Some a \<Rightarrow> Inr a))"

text \<open>
  \<^verbatim>\<open>DELETE /api/assets/:assetId\<close>. A locator that contains the directory's
  URL prefix names the file \<^verbatim>\<open>path.basename(url)\<close> of that directory, which is
  unlinked when it exists; then the subdocument is pulled from the array by its id.
\<close>

definition unlink_named :: "dir \<Rightarrow> string \<Rightarrow> string \<Rightarrow> dir" where
  "unlink_named d url marker =
     (if url \<noteq> [] \<and> js_includes url marker
      then (if basename url \<in> dom d then d(basename url := None) else d)
      else d)"

definition delete_asset :: "world \<Rightarrow> nat \<Rightarrow> nat \<Rightarrow> http_error + world" where
  "delete_asset w uid assetId =
     (case users w uid of
        None \<Rightarrow> Inl (Http 404 ''User not found'')
      | Some as \<Rightarrow>
          (case by_id as assetId of
             None \<Rightarrow> Inl (Http 404 ''Asset not found'')
           | Some a \<Rightarrow>
               Inr (w\<lparr>imagesDir := unlink_named (imagesDir w) (imageUrl a) ''/uploads/images/'',
                       glbDir := (case glbUrl a of
                                    None \<Rightarrow> glbDir w
                                  | Some u \<Rightarrow> unlink_named (glbDir w) u ''/uploads/glb/''),
                       users := (users w)(uid \<mapsto> filter (\<lambda>b. aid b \<noteq> assetId) as)\<rparr>)))"

subsection \<open>The upload route of \<^verbatim>\<open>routes/create.js\<close>: collaborators\<close>

datatype fetch_result = FetchFails | FetchNotOk | FetchOk buffer

text \<open>
  A reply of the remote service, after \<^verbatim>\<open>Array.isArray(data) ? data[0] : data\<close>:
  a primitive value, a binary buffer, or another object. Of an object the handler reads the
  fields \<^verbatim>\<open>url\<close>, \<^verbatim>\<open>link\<close>, \<^verbatim>\<open>path\<close> and
  \<^verbatim>\<open>file\<close> and the text \<^verbatim>\<open>JSON.stringify\<close> gives for it.
\<close>

record file_ref =
  ref_url :: jsval
  ref_link :: jsval
  ref_path :: jsval
  ref_file :: jsval
  ref_json :: string

datatype raw = Val prim | Bin buffer | Obj file_ref

datatype 'a remote = Throws | Returns 'a

text \<open>The parameter bag sent to \<^verbatim>\<open>/process_3d\<close>.\<close>

record payload =
  input_image :: buffer
  input_mime :: string
  num_steps :: number
  cfg_scale :: number
  grid_res :: number
  seed3d :: number
  simplify_mesh :: prim
  target_num_faces :: number

text \<open>
  What the handler calls and does not define: the language's string-to-number conversion,
  \<^verbatim>\<open>fetch\<close>, the extension and the base name of a URL's path (\<open>None\<close> when
  \<^verbatim>\<open>new URL\<close> throws), base64 decoding, the optional \<^verbatim>\<open>sharp\<close>
  module (\<open>None\<close> when it is not installed; a conversion that throws gives
  \<open>None\<close>), whether loading the client and \<^verbatim>\<open>Client.connect\<close> succeed
  at the head of Step A and of the \<^verbatim>\<open>/process_3d\<close> block, and the three
  operations of the remote service. For the seed, where the call follows the connection at
  once, a failed connection is a failed call.
\<close>

record env =
  str_num :: "string \<Rightarrow> number"
  fetch :: "string \<Rightarrow> fetch_result"
  url_ext :: "string \<Rightarrow> string option"
  url_base :: "string \<Rightarrow> string option"
  from_base64 :: "string \<Rightarrow> buffer"
  sharp :: "(buffer \<Rightarrow> buffer option) option"
  connects :: bool
  process_image :: "buffer \<Rightarrow> string \<Rightarrow> raw remote"
  get_random_seed :: "bool \<Rightarrow> number \<Rightarrow> raw remote"
  process_3d :: "payload \<Rightarrow> raw remote"

text \<open>The form fields of the upload, each a primitive value (undefined when absent).\<close>

record body =
  b_seed :: prim
  b_num_steps :: prim
  b_cfg_scale :: prim
  b_grid_res :: prim
  b_simplify_mesh :: prim
  b_target_num_faces :: prim
  b_randomize_seed :: prim

record upload_req =
  up_file :: "(string \<times> string) option"
  up_userId :: "nat option"
  up_body :: body
  up_host :: "string option"
  up_protocol :: string

text \<open>
  What the closure of one upload holds after the asset was created: the request's data,
  \<^verbatim>\<open>createdAsset\<close> of the user document it loaded at the start
  (\<open>j_created\<close>), and the parsed seed.
\<close>

record job =
  j_uid :: nat
  j_assetId :: nat
  j_created :: asset
  j_filename :: string
  j_mimetype :: string
  j_body :: body
  j_providedSeed :: "number option"
  j_protocol :: string
  j_host :: string
  j_imageUrl :: string

subsection \<open>Artifact store\<close>

definition saveBufferAsImage ::
  "world \<Rightarrow> buffer \<Rightarrow> string \<Rightarrow> string \<Rightarrow> string \<Rightarrow> nat \<Rightarrow> nat \<Rightarrow> string \<times> world" where
  "saveBufferAsImage w buffer ex proto h now rnd =
     (let filename = ''processed-'' @ show_nat now @ ''-'' @ show_nat rnd @ ''.''
                       @ (if ex = [] then ''png'' else ex)
      in (image_url proto h filename, w\<lparr>imagesDir := (imagesDir w)(filename \<mapsto> buffer)\<rparr>))"

definition saveBufferAsGlb ::
  "world \<Rightarrow> buffer \<Rightarrow> string \<Rightarrow> string \<Rightarrow> string \<Rightarrow> nat \<Rightarrow> nat \<Rightarrow> string \<times> world" where
  "saveBufferAsGlb w buffer ex proto h now rnd =
     (let safeExt = ''glb'';
          filename = ''generated-'' @ show_nat now @ ''-'' @ show_nat rnd @ ''.'' @ safeExt
      in (glb_url proto h filename, w\<lparr>glbDir := (glbDir w)(filename \<mapsto> buffer)\<rparr>))"

subsection \<open>Phase 1: asset creation and segmentation\<close>

text \<open>\<^verbatim>\<open>providedSeed\<close>: the number of the seed field, or null when it is absent or empty.\<close>

definition parse_seed :: "env \<Rightarrow> prim \<Rightarrow> number option" where
  "parse_seed e seedRaw =
     (if seedRaw \<noteq> VUndefined \<and> seedRaw \<noteq> VNull \<and> seedRaw \<noteq> VStr []
      then Some (js_Number (str_num e) seedRaw) else None)"

text \<open>
  The checks, the new subdocument in status pending with no GLB, the push and the save.
  \<open>new_id\<close> is the \<^verbatim>\<open>_id\<close> Mongoose gives the subdocument.
\<close>

definition begin_upload ::
  "env \<Rightarrow> world \<Rightarrow> upload_req \<Rightarrow> nat \<Rightarrow> nat \<Rightarrow> http_error + job \<times> world" where
  "begin_upload e w req new_id now =
     (case up_file req of
        None \<Rightarrow> Inl (Http 400 ''No image file provided'')
      | Some (fname, mtype) \<Rightarrow>
          (case up_userId req of
             None \<Rightarrow> Inl (Http 401 ''Authorization required'')
           | Some uid \<Rightarrow>
               (case users w uid of
                  None \<Rightarrow> Inl (Http 404 ''User not found'')
                | Some as \<Rightarrow>
                    let providedSeed = parse_seed e (b_seed (up_body req));
                        h = (case up_host req of
                               None \<Rightarrow> ''localhost:5000''
                             | Some x \<Rightarrow> if x = [] then ''localhost:5000'' else x);
                        proto = (if up_protocol req = [] then ''http'' else up_protocol req);
                        imagePath = ''/uploads/images/'' @ fname;
                        iurl = proto @ ''://'' @ h @ imagePath;
                        newAsset =
                          \<lparr>aid = new_id, imageUrl = iurl, glbUrl = None, status = Pending,
                           meta = \<lparr>seed = providedSeed, uploadedAt = Some now,
                                   segmentedImage = None\<rparr>,
                           createdAt = now\<rparr>
                    in Inr (\<lparr>j_uid = uid, j_assetId = new_id,
                             j_created = newAsset, j_filename = fname, j_mimetype = mtype,
                             j_body = up_body req, j_providedSeed = providedSeed,
                             j_protocol = proto, j_host = h, j_imageUrl = iurl\<rparr>,
                            w\<lparr>users := (users w)(uid \<mapsto> as @ [newAsset])\<rparr>))))"

text \<open>
  The block that fetches a URL the service returned and stores the bytes; it stands
  inside a \<^verbatim>\<open>try\<close> of its own, so a failure leaves the stage without a result.
\<close>

definition fetch_image ::
  "env \<Rightarrow> world \<Rightarrow> string \<Rightarrow> string \<Rightarrow> string \<Rightarrow> nat \<Rightarrow> nat \<Rightarrow> string option \<times> world" where
  "fetch_image e w u proto h now rnd =
     (case fetch e u of
        FetchOk buf \<Rightarrow>
          (case url_ext e u of
             Some x \<Rightarrow>
               (let (l, w') = saveBufferAsImage w buf (if x = [] then ''png'' else x) proto h now rnd
                in (Some l, w'))
           | None \<Rightarrow> (None, w))
      | FetchNotOk \<Rightarrow> (None, w)
      | FetchFails \<Rightarrow> (None, w))"

fun is_string :: "jsval \<Rightarrow> bool" where
  "is_string (Prim (VStr t)) = True"
| "is_string v = False"

definition js_or :: "jsval \<Rightarrow> jsval \<Rightarrow> jsval" where
  "js_or a b = (if truthy_val a then a else b)"

text \<open>\<^verbatim>\<open>JSON.stringify(rawOut || {})\<close> for a primitive that is not a string.\<close>

fun json_or_empty :: "prim \<Rightarrow> string" where
  "json_or_empty (VBool True) = ''true''"
| "json_or_empty (VNum (Num n)) = (if n = 0 then ''{}'' else show_int n)"
| "json_or_empty p = ''{}''"

text \<open>
  Normalisation of the \<^verbatim>\<open>/process_image\<close> reply: the locator assigned to
  \<^verbatim>\<open>segmentedImageUrl\<close> (\<open>None\<close> when it stays null) and the world with
  the file written, or the exception thrown on the way.
\<close>

definition normalize_image ::
  "env \<Rightarrow> world \<Rightarrow> raw \<Rightarrow> string \<Rightarrow> string \<Rightarrow> nat \<Rightarrow> nat \<Rightarrow> exn + string option \<times> world" where
  "normalize_image e w rawOut proto h now rnd =
     (let saved = (\<lambda>buffer x. (let (l, w') = saveBufferAsImage w buffer x proto h now rnd
                                in Inr (Some l, w')))
      in case rawOut of
        Val (VStr s) \<Rightarrow>
          if startsWith s ''data:'' then
            (case match_data_uri s of
               Some (m, base64) \<Rightarrow>
                 (case split CHR ''/'' m of
                    _ # sub # _ \<Rightarrow>
                      let x0 = hd (split CHR ''+'' sub);
                          x = (if x0 = [] then ''png'' else x0)
                      in saved (from_base64 e base64) x
                  | _ \<Rightarrow> Inl TypeError)
             | None \<Rightarrow> Inr (fetch_image e w s proto h now rnd))
          else if startsWith s ''http://'' \<or> startsWith s ''https://'' then
            Inr (fetch_image e w s proto h now rnd)
          else
            (let maybeBase64 = strip_spaces s in
             if isBase64 maybeBase64 \<and> length maybeBase64 > 100
             then saved (from_base64 e maybeBase64) ''png''
             else saved (utf8 s) ''txt'')
      | Val p \<Rightarrow> saved (utf8 (json_or_empty p)) ''txt''
      | Bin buffer \<Rightarrow> saved buffer ''png''
      | Obj r \<Rightarrow>
          (let candidateUrl = js_or (js_or (js_or (ref_url r) (ref_link r)) (ref_path r)) (ref_file r)
           in if truthy_val candidateUrl then
                (case candidateUrl of
                   Prim (VStr u) \<Rightarrow>
                     if startsWith u ''http://'' \<or> startsWith u ''https://''
                     then Inr (fetch_image e w u proto h now rnd)
                     else if truthy_val (ref_path r) \<and> is_string (ref_path r)
                     then saved (utf8 (ref_json r)) ''txt''
                     else saved (utf8 (ref_json r)) ''txt''
                 | _ \<Rightarrow> Inl TypeError)
              else if truthy_val (ref_path r) \<and> is_string (ref_path r)
              then saved (utf8 (ref_json r)) ''txt''
              else saved (utf8 (ref_json r)) ''txt''))"

text \<open>
  Recording the segmented image: the user is read again; the subdocument found there is
  changed and that document saved; when it is not found, the handler changes
  \<^verbatim>\<open>createdAsset\<close> of the document it loaded at the start and saves that one.
\<close>

definition attach_segmented :: "asset list option \<Rightarrow> job \<Rightarrow> string \<Rightarrow> exn + db_write" where
  "attach_segmented freshUser j url =
     (case freshUser of
        None \<Rightarrow> Inl TypeError
      | Some as \<Rightarrow>
          (case by_id as (j_assetId j) of
             Some sub \<Rightarrow> Inr (save_fresh as sub (set_segmented sub url))
           | None \<Rightarrow> save_stale (j_created j) (set_segmented (j_created j) url)))"

text \<open>
  Step A as a whole, inside its \<^verbatim>\<open>try\<close>: what \<^verbatim>\<open>segmentedImageUrl\<close>
  holds afterwards, the world with the file written, what the save sent, and the exception
  the \<^verbatim>\<open>catch\<close> logged, if any.
\<close>

record seg_result =
  sr_url :: "string option"
  sr_world :: world
  sr_write :: db_write
  sr_caught :: "exn option"

definition segment_step :: "env \<Rightarrow> world \<Rightarrow> job \<Rightarrow> nat \<Rightarrow> nat \<Rightarrow> seg_result" where
  "segment_step e w j now rnd =
     (if \<not> connects e
      then \<lparr>sr_url = None, sr_world = w, sr_write = NoSave, sr_caught = Some RemoteError\<rparr>
      else case imagesDir w (j_filename j) of
        None \<Rightarrow> \<lparr>sr_url = None, sr_world = w, sr_write = NoSave, sr_caught = Some FsError\<rparr>
      | Some fileBuffer \<Rightarrow>
          (case process_image e fileBuffer
                  (if j_mimetype j = [] then ''image/png'' else j_mimetype j) of
             Throws \<Rightarrow> \<lparr>sr_url = None, sr_world = w, sr_write = NoSave,
                         sr_caught = Some RemoteError\<rparr>
           | Returns rawOut \<Rightarrow>
               (case normalize_image e w rawOut (j_protocol j) (j_host j) now rnd of
                  Inl x \<Rightarrow> \<lparr>sr_url = None, sr_world = w, sr_write = NoSave,
                            sr_caught = Some x\<rparr>
                | Inr (None, w') \<Rightarrow> \<lparr>sr_url = None, sr_world = w', sr_write = NoSave,
                                      sr_caught = None\<rparr>
                | Inr (Some url, w') \<Rightarrow>
                    if url = [] then \<lparr>sr_url = Some url, sr_world = w', sr_write = NoSave,
                                       sr_caught = None\<rparr>
                    else
                      (case attach_segmented (users w' (j_uid j)) j url of
                         Inl x \<Rightarrow> \<lparr>sr_url = Some url, sr_world = w', sr_write = NoSave,
                                   sr_caught = Some x\<rparr>
                       | Inr wr \<Rightarrow> \<lparr>sr_url = Some url, sr_world = w', sr_write = wr,
                                     sr_caught = None\<rparr>))))"



subsection \<open>Phase 2: seed, source image, mesh generation, GLB\<close>

text \<open>
  Seed for the mesh call. The remote \<^verbatim>\<open>/get_random_seed\<close> is called in every
  case, with the truthiness of \<^verbatim>\<open>randomize_seed\<close> and the provided seed (0 when
  it is null or NaN). A number, or a string of decimal digits, in the reply becomes the
  seed; on any other reply, and when the call throws, the seed is the provided one, or 0
  when none was provided.
\<close>

definition resolve_seed :: "env \<Rightarrow> number option \<Rightarrow> prim \<Rightarrow> number" where
  "resolve_seed e providedSeed randomize_seed =
     (let fallback = (case providedSeed of None \<Rightarrow> Num 0 | Some n \<Rightarrow> n)
      in case get_random_seed e (truthy randomize_seed)
                (case providedSeed of Some (Num n) \<Rightarrow> Num n | _ \<Rightarrow> Num 0) of
           Throws \<Rightarrow> fallback
         | Returns (Val (VNum n)) \<Rightarrow> n
         | Returns (Val (VStr s)) \<Rightarrow> if all_digits s then str_num e s else fallback
         | Returns _ \<Rightarrow> fallback)"

text \<open>\<^verbatim>\<open>detected && detected.mime.startsWith("image/")\<close>.\<close>

definition is_image :: "detected option \<Rightarrow> bool" where
  "is_image d = (case d of None \<Rightarrow> False | Some x \<Rightarrow> startsWith (mime x) ''image/'')"

text \<open>
  Choice of the image sent to the mesh generator: the file of the segmented image when it
  exists (else the uploaded file) is read and sniffed; if it is no image the uploaded file
  is read and sniffed; if that is no image either, the work is aborted. The result keeps
  what the sniffer said of the first buffer, which decides the WebP conversion.
\<close>

datatype selection = AbortNotImage | Send buffer string "detected option"

definition select_source :: "env \<Rightarrow> world \<Rightarrow> string option \<Rightarrow> string \<Rightarrow> exn + selection" where
  "select_source e w segmentedImageUrl orig =
     (let segLocal = (case segmentedImageUrl of
                        None \<Rightarrow> None
                      | Some u \<Rightarrow> if u = [] then None else url_base e u);
          segLocalPath = (case segLocal of
                            None \<Rightarrow> orig
                          | Some f \<Rightarrow> if f \<in> dom (imagesDir w) then f else orig)
      in case imagesDir w segLocalPath of
           None \<Rightarrow> Inl FsError
         | Some segBuffer \<Rightarrow>
             let det = detectMimeFromBuffer segBuffer in
             if \<not> is_image det then
               (case imagesDir w orig of
                  None \<Rightarrow> Inl FsError
                | Some origBuf \<Rightarrow>
                    let origDetected = detectMimeFromBuffer origBuf in
                    if \<not> is_image origDetected then Inr AbortNotImage
                    else Inr (Send origBuf (mime (the origDetected)) det))
             else Inr (Send segBuffer (mime (the det)) det))"

text \<open>
  The abort path re-reads the user and, when the asset is still there, assigns
  \<^verbatim>\<open>sub3.status = sub3.status || "pending"\<close> and saves. A status is one of the
  four non-empty strings of the schema, so the value assigned is the status it had.
\<close>

definition abort_3d :: "asset list option \<Rightarrow> nat \<Rightarrow> exn + db_write" where
  "abort_3d freshUser assetId =
     (case freshUser of
        None \<Rightarrow> Inl TypeError
      | Some as \<Rightarrow>
          (case by_id as assetId of
             Some sub3 \<Rightarrow>
               Inr (save_fresh as sub3 (assign sub3 ''status'' (FStatus (status sub3))))
           | None \<Rightarrow> Inr NoSave))"

text \<open>WebP to PNG when the first sniff said WebP and \<^verbatim>\<open>sharp\<close> is there and succeeds.\<close>

definition convert_webp :: "env \<Rightarrow> detected option \<Rightarrow> buffer \<Rightarrow> string \<Rightarrow> buffer \<times> string" where
  "convert_webp e det bufferToSend mimeToSend =
     (case det of
        None \<Rightarrow> (bufferToSend, mimeToSend)
      | Some d \<Rightarrow>
          if ext d = ''webp'' then
            (case sharp e of
               Some to_png \<Rightarrow>
                 (case to_png bufferToSend of
                    Some pngBuf \<Rightarrow> (pngBuf, ''image/png'')
                  | None \<Rightarrow> (bufferToSend, mimeToSend))
             | None \<Rightarrow> (bufferToSend, mimeToSend))
          else (bufferToSend, mimeToSend))"

text \<open>
  The payload of \<^verbatim>\<open>/process_3d\<close>. Each numeric field is
  \<^verbatim>\<open>Number(req.body.x ?? x)\<close>, where \<^verbatim>\<open>x\<close> is the destructured field
  with its default. The flag \<^verbatim>\<open>simplify_mesh\<close> is, when the field is present,
  the comparison of the field with \<^verbatim>\<open>"false"\<close> or \<^verbatim>\<open>false\<close>, and
  otherwise the destructured value.
\<close>

definition build_payload :: "env \<Rightarrow> body \<Rightarrow> buffer \<Rightarrow> string \<Rightarrow> number \<Rightarrow> payload" where
  "build_payload e b bufferToSend mimeToSend seedFor3d =
     \<lparr>input_image = bufferToSend,
      input_mime = mimeToSend,
      num_steps = js_Number (str_num e)
        (nullish (b_num_steps b) (destructure_default (b_num_steps b) (VNum (Num 50)))),
      cfg_scale = js_Number (str_num e)
        (nullish (b_cfg_scale b) (destructure_default (b_cfg_scale b) (VNum (Num 7)))),
      grid_res = js_Number (str_num e)
        (nullish (b_grid_res b) (destructure_default (b_grid_res b) (VNum (Num 384)))),
      seed3d = js_Number (str_num e) (nullish (VNum seedFor3d) (VNum (Num 0))),
      simplify_mesh =
        (if b_simplify_mesh b \<noteq> VUndefined
         then VBool (b_simplify_mesh b = VStr ''false'' \<or> b_simplify_mesh b = VBool False)
         else destructure_default (b_simplify_mesh b) (VBool False)),
      target_num_faces = js_Number (str_num e)
        (nullish (b_target_num_faces b)
           (destructure_default (b_target_num_faces b) (VNum (Num 100000))))\<rparr>"

text \<open>The block that fetches a URL and stores the bytes as a GLB, in its own \<^verbatim>\<open>try\<close>.\<close>

definition fetch_glb ::
  "env \<Rightarrow> world \<Rightarrow> string \<Rightarrow> string \<Rightarrow> string \<Rightarrow> nat \<Rightarrow> nat \<Rightarrow> string option \<times> world" where
  "fetch_glb e w u proto h now rnd =
     (case fetch e u of
        FetchOk buf \<Rightarrow>
          (case url_ext e u of
             Some x \<Rightarrow>
               (let (l, w') = saveBufferAsGlb w buf (if x = [] then ''glb'' else x) proto h now rnd
                in (Some l, w'))
           | None \<Rightarrow> (None, w))
      | FetchNotOk \<Rightarrow> (None, w)
      | FetchFails \<Rightarrow> (None, w))"

text \<open>
  Normalisation of the \<^verbatim>\<open>/process_3d\<close> reply: the value of \<^verbatim>\<open>glbUrl\<close>
  and the world with the files written. An object without a fetchable URL is written as a
  diagnostic text into the images directory and \<^verbatim>\<open>glbUrl\<close> stays null; a string
  of no known shape and any other value only produce a warning.
\<close>

definition normalize_glb ::
  "env \<Rightarrow> world \<Rightarrow> raw \<Rightarrow> string \<Rightarrow> string \<Rightarrow> nat \<Rightarrow> nat \<Rightarrow> exn + string option \<times> world" where
  "normalize_glb e w raw3d proto h now rnd =
     (let saved = (\<lambda>buffer x. (let (l, w') = saveBufferAsGlb w buffer x proto h now rnd
                                in Inr (Some l, w')))
      in case raw3d of
        Val (VStr s) \<Rightarrow>
          if startsWith s ''data:'' then
            (case match_data_uri s of
               Some (m, base64) \<Rightarrow>
                 (case split CHR ''/'' m of
                    _ # sub # _ \<Rightarrow>
                      let x0 = hd (split CHR ''+'' sub);
                          x = (if x0 = [] then ''glb'' else x0)
                      in saved (from_base64 e base64) x
                  | _ \<Rightarrow> Inl TypeError)
             | None \<Rightarrow> Inr (fetch_glb e w s proto h now rnd))
          else if startsWith s ''http://'' \<or> startsWith s ''https://'' then
            Inr (fetch_glb e w s proto h now rnd)
          else
            (let maybeBase64 = strip_spaces s in
             if isBase64 maybeBase64 \<and> length maybeBase64 > 100
             then saved (from_base64 e maybeBase64) ''glb''
             else Inr (None, w))
      | Val p \<Rightarrow> Inr (None, w)
      | Bin buffer \<Rightarrow> saved buffer ''glb''
      | Obj r \<Rightarrow>
          (let candidateUrl = js_or (js_or (js_or (ref_url r) (ref_link r)) (ref_path r)) (ref_file r)
           in if truthy_val candidateUrl then
                (case candidateUrl of
                   Prim (VStr u) \<Rightarrow>
                     if startsWith u ''http://'' \<or> startsWith u ''https://''
                     then Inr (fetch_glb e w u proto h now rnd)
                     else Inr (None, snd (saveBufferAsImage w (utf8 (ref_json r)) ''txt'' proto h now rnd))
                 | _ \<Rightarrow> Inl TypeError)
              else Inr (None, snd (saveBufferAsImage w (utf8 (ref_json r)) ''txt'' proto h now rnd))))"

text \<open>
  Attaching the GLB: the four assignments, on the subdocument of the user read again, or,
  when it is not found there, on \<^verbatim>\<open>createdAsset\<close> of the document loaded at the
  start of the request, followed by the save of that document. The two
  \<^verbatim>\<open>new Date()\<close> of the update are taken at one instant \<open>now\<close>.
\<close>

definition attach_generated ::
  "asset list option \<Rightarrow> asset \<Rightarrow> nat \<Rightarrow> string option \<Rightarrow> nat \<Rightarrow> exn + db_write" where
  "attach_generated freshUser created assetId glb now =
     (case glb of
        None \<Rightarrow> Inr NoSave
      | Some url \<Rightarrow>
          if url = [] then Inr NoSave
          else
            (case freshUser of
               None \<Rightarrow> Inl TypeError
             | Some as \<Rightarrow>
                 (case by_id as assetId of
                    Some sub2 \<Rightarrow> Inr (save_fresh as sub2 (set_glb sub2 url now))
                  | None \<Rightarrow> save_stale created (set_glb created url now))))"

text \<open>
  The background function as a whole: the world with the files it wrote, what its save
  sent, the payload it sent to \<^verbatim>\<open>/process_3d\<close> (if it came to the call) and the
  exception its \<^verbatim>\<open>catch\<close> logged (if any).
\<close>

record bg_result =
  bg_world :: world
  bg_write :: db_write
  bg_sent :: "payload option"
  bg_caught :: "exn option"

definition background ::
  "env \<Rightarrow> world \<Rightarrow> job \<Rightarrow> string option \<Rightarrow> nat \<Rightarrow> nat \<Rightarrow> bg_result" where
  "background e w j segmentedImageUrl now rnd =
     (let seedFor3d = resolve_seed e (j_providedSeed j)
                        (destructure_default (b_randomize_seed (j_body j)) (VBool False));
          stop = (\<lambda>x. \<lparr>bg_world = w, bg_write = NoSave, bg_sent = None, bg_caught = Some x\<rparr>)
      in if \<not> connects e then stop RemoteError
         else case select_source e w segmentedImageUrl (j_filename j) of
           Inl x \<Rightarrow> stop x
         | Inr AbortNotImage \<Rightarrow>
             (case abort_3d (users w (j_uid j)) (j_assetId j) of
                Inl x \<Rightarrow> stop x
              | Inr wr \<Rightarrow> \<lparr>bg_world = w, bg_write = wr, bg_sent = None, bg_caught = None\<rparr>)
         | Inr (Send buf0 mime0 det) \<Rightarrow>
             let (bufferToSend, mimeToSend) = convert_webp e det buf0 mime0;
                 pl = build_payload e (j_body j) bufferToSend mimeToSend seedFor3d
             in case process_3d e pl of
                  Throws \<Rightarrow> \<lparr>bg_world = w, bg_write = NoSave, bg_sent = Some pl,
                              bg_caught = Some RemoteError\<rparr>
                | Returns raw3d \<Rightarrow>
                    (case normalize_glb e w raw3d (j_protocol j) (j_host j) now rnd of
                       Inl x \<Rightarrow> \<lparr>bg_world = w, bg_write = NoSave, bg_sent = Some pl,
                                 bg_caught = Some x\<rparr>
                     | Inr (glb, w') \<Rightarrow>
                         (case attach_generated (users w' (j_uid j)) (j_created j)
                                 (j_assetId j) glb now of
                            Inl x \<Rightarrow> \<lparr>bg_world = w', bg_write = NoSave, bg_sent = Some pl,
                                      bg_caught = Some x\<rparr>
                          | Inr wr \<Rightarrow> \<lparr>bg_world = w', bg_write = wr, bg_sent = Some pl,
                                       bg_caught = None\<rparr>)))"

subsection \<open>Unrecognised replies\<close>






subsection \<open>Records at rest\<close>

text \<open>
  The worlds the operations lead to, from users without assets: registration of a user
  (\<^verbatim>\<open>routes/auth.js\<close>: a new user has no assets), the two routes that create
  an asset, attach-glb, deletion, files appearing in the upload directories, and Step A and
  the background function of an upload begun earlier, with what their saves send. The
  remote service and the other collaborators may behave differently at every step.
\<close>

inductive reachable :: "world \<Rightarrow> bool" where
  start: "reachable w" if "\<forall>as \<in> ran (users w). as = []"
| register: "reachable (w\<lparr>users := (users w)(uid \<mapsto> [])\<rparr>)"
    if "reachable w" and "users w uid = None"
| files: "reachable (w\<lparr>imagesDir := di, glbDir := dg\<rparr>)" if "reachable w"
| upload_image: "reachable w'" if "reachable w" and "upload_image w req new_id now = Inr (a, w')"
| attach_glb: "reachable w'" if "reachable w" and "attach_glb w req assetId now = Inr (a, w')"
| delete_asset: "reachable w'" if "reachable w" and "delete_asset w uid assetId = Inr w'"
| begin_upload: "reachable w'" if "reachable w" and "begin_upload e w req new_id now = Inr (j, w')"
| segment_step:
    "reachable (commit (sr_world r) (j_uid j) (sr_write r))"
    if "reachable w" and "reachable w0" and "begin_upload e0 w0 req new_id t0 = Inr (j, w1)"
    and "r = segment_step e w j now rnd"
| background:
    "reachable (commit (bg_world r) (j_uid j) (bg_write r))"
    if "reachable w" and "reachable w0" and "begin_upload e0 w0 req new_id t0 = Inr (j, w1)"
    and "r = background e w j segmentedImageUrl now rnd"

text \<open>The invariant of an asset record.\<close>

definition glb_iff_ready :: "asset \<Rightarrow> bool" where
  "glb_iff_ready a = ((glbUrl a \<noteq> None) = (status a = Ready))"

text \<open>A property of every record of every user.\<close>

definition all_records :: "(asset \<Rightarrow> bool) \<Rightarrow> world \<Rightarrow> bool" where
  "all_records P w = (\<forall>uid as. users w uid = Some as \<longrightarrow> list_all P as)"

subsection \<open>Sample data\<close>

text \<open>
  A user (id 1) with one pending asset (id 7) whose image lies in the images directory,
  an upload of that user, and collaborators: no network, no \<^verbatim>\<open>sharp\<close>, a seed
  operation that returns the given seed unless asked to randomise, and digit strings read
  as decimal numbers.
\<close>

definition png_bytes :: buffer where
  "png_bytes = [0x89, 0x50, 0x4E, 0x47, 0x0D, 0x0A, 0x1A, 0x0A, 0, 0, 0, 0x0D]"

definition sample_asset :: asset where
  "sample_asset =
     \<lparr>aid = 7, imageUrl = ''http://localhost:5000/uploads/images/1-2.png'', glbUrl = None,
      status = Pending,
      meta = \<lparr>seed = Some (Num 5), uploadedAt = Some 100, segmentedImage = None\<rparr>,
      createdAt = 100\<rparr>"

definition sample_world :: world where
  "sample_world =
     \<lparr>users = [1 \<mapsto> [sample_asset]], imagesDir = [''1-2.png'' \<mapsto> png_bytes],
      glbDir = Map.empty\<rparr>"

definition empty_body :: body where
  "empty_body =
     \<lparr>b_seed = VUndefined, b_num_steps = VUndefined, b_cfg_scale = VUndefined,
      b_grid_res = VUndefined, b_simplify_mesh = VUndefined, b_target_num_faces = VUndefined,
      b_randomize_seed = VUndefined\<rparr>"

definition sample_job :: job where
  "sample_job =
     \<lparr>j_uid = 1, j_assetId = 7, j_created = sample_asset,
      j_filename = ''1-2.png'', j_mimetype = ''image/png'',
      j_body = empty_body\<lparr>b_seed := VStr ''5''\<rparr>, j_providedSeed = Some (Num 5),
      j_protocol = ''http'', j_host = ''localhost:5000'',
      j_imageUrl = ''http://localhost:5000/uploads/images/1-2.png''\<rparr>"

definition decimal :: "string \<Rightarrow> number" where
  "decimal s =
     (if all_digits s then Num (foldl (\<lambda>n c. 10 * n + (int (code c) - 48)) 0 s) else NaN)"

definition env0 :: env where
  "env0 =
     \<lparr>str_num = decimal, fetch = (\<lambda>u. FetchFails), url_ext = (\<lambda>u. None),
      url_base = (\<lambda>u. Some (basename u)), from_base64 = (\<lambda>s. []), sharp = None,
      connects = True, process_image = (\<lambda>b m. Throws),
      get_random_seed = (\<lambda>r s. Returns (Val (VNum (if r then Num 42 else s)))),
      process_3d = (\<lambda>p. Throws)\<rparr>"

text \<open>Two other behaviours of the seed operation: one that fails, one that answers 7.\<close>

definition get_random_seed_fails :: "bool \<Rightarrow> number \<Rightarrow> raw remote" where
  "get_random_seed_fails r s = Throws"

definition get_random_seed_7 :: "bool \<Rightarrow> number \<Rightarrow> raw remote" where
  "get_random_seed_7 r s = Returns (Val (VNum (Num 7)))"




text \<open>A mesh generator that answers with a binary GLB.\<close>

definition glb_bytes :: buffer where
  "glb_bytes = [0x67, 0x6C, 0x54, 0x46, 2, 0, 0, 0, 12, 0, 0, 0]"

definition process_3d_glb :: "payload \<Rightarrow> raw remote" where
  "process_3d_glb p = Returns (Bin glb_bytes)"

text \<open>
  The sample user after asset 7 was deleted (the uploaded file is still in the images
  directory), and the sample user with two assets, 8 and 7, whose records both hold a
  segmented image.
\<close>

definition world_deleted :: world where
  "world_deleted = sample_world\<lparr>users := [1 \<mapsto> []]\<rparr>"

text \<open>The upload request that, for the user without assets, creates asset 7.\<close>

definition sample_upload :: upload_req where
  "sample_upload =
     \<lparr>up_file = Some (''1-2.png'', ''image/png''), up_userId = Some 1,
      up_body = empty_body\<lparr>b_seed := VStr ''5''\<rparr>, up_host = Some ''localhost:5000'',
      up_protocol = ''http''\<rparr>"

definition other_asset :: asset where
  "other_asset =
     \<lparr>aid = 8, imageUrl = ''http://localhost:5000/uploads/images/5-6.png'', glbUrl = None,
      status = Pending,
      meta = \<lparr>seed = None, uploadedAt = Some 90,
              segmentedImage = Some ''http://localhost:5000/uploads/images/processed-9-9.png''\<rparr>,
      createdAt = 90\<rparr>"

definition segmented_asset :: asset where
  "segmented_asset =
     sample_asset\<lparr>meta := (meta sample_asset)
        \<lparr>segmentedImage := Some ''http://localhost:5000/uploads/images/processed-2-2.png''\<rparr>\<rparr>"

definition world_two :: world where
  "world_two = sample_world\<lparr>users := [1 \<mapsto> [other_asset, segmented_asset]]\<rparr>"

text \<open>
  A user without assets, and the same user after an image was uploaded through
  \<^verbatim>\<open>/upload-image\<close> and a GLB attached by URL.
\<close>

definition world_start :: world where
  "world_start = \<lparr>users = [1 \<mapsto> []], imagesDir = Map.empty, glbDir = Map.empty\<rparr>"

definition ready_asset :: asset where
  "ready_asset =
     \<lparr>aid = 7, imageUrl = ''http://h/uploads/images/1-2.png'', glbUrl = Some ''http://cdn/m.glb'',
      status = Ready, meta = \<lparr>seed = None, uploadedAt = None, segmentedImage = None\<rparr>,
      createdAt = 100\<rparr>"

definition world_ready :: world where
  "world_ready = \<lparr>users = [1 \<mapsto> [ready_asset]], imagesDir = Map.empty, glbDir = Map.empty\<rparr>"

section \<open>Theorems\<close>

subsection \<open>Format sniffer\<close>

lemma len4_shape: "4 \<le> length xs \<Longrightarrow> \<exists>a b c d r. xs = a # b # c # d # r"
  by (cases xs; simp; cases "tl xs"; simp; cases "tl (tl xs)"; simp; cases "tl (tl (tl xs))"; simp)

lemma take4_eq:
  "4 \<le> length xs \<Longrightarrow>
   (take 4 xs = [a, b, c, d]) = (xs ! 0 = a \<and> xs ! 1 = b \<and> xs ! 2 = c \<and> xs ! 3 = d)"
proof -
  assume "4 \<le> length xs"
  then obtain a' b' c' d' r where "xs = a' # b' # c' # d' # r"
    using len4_shape by blast
  then show ?thesis by (simp add: numeral_eq_Suc)
qed

lemma take2_eq:
  "4 \<le> length xs \<Longrightarrow> (take 2 xs = [a, b]) = (xs ! 0 = a \<and> xs ! 1 = b)"
proof -
  assume "4 \<le> length xs"
  then obtain a' b' c' d' r where "xs = a' # b' # c' # d' # r"
    using len4_shape by blast
  then show ?thesis by (simp add: numeral_eq_Suc)
qed

text \<open>
  C6. The sniffer decides from the leading bytes alone. On a buffer of at least twelve
  bytes it answers PNG exactly when the buffer begins with 89 50 4E 47, JPEG exactly when
  it begins with FF D8, WebP exactly when bytes 0-3 are "RIFF" and bytes 8-11 are "WEBP",
  GLB exactly when it begins with "glTF"; it answers unknown (\<open>None\<close>) exactly
  when the buffer is shorter than twelve bytes or matches none of the four signatures.
  The function has the buffer as its only argument: no declared MIME type or file name
  reaches it, and it returns a value without touching any state.
\<close>

theorem detectMimeFromBuffer_classifies:
  "(detectMimeFromBuffer buf = Some \<lparr>mime = ''image/png'', ext = ''png''\<rparr>)
     = (12 \<le> length buf \<and> take 4 buf = [0x89, 0x50, 0x4E, 0x47])
   \<and> (detectMimeFromBuffer buf = Some \<lparr>mime = ''image/jpeg'', ext = ''jpg''\<rparr>)
     = (12 \<le> length buf \<and> take 2 buf = [0xFF, 0xD8])
   \<and> (detectMimeFromBuffer buf = Some \<lparr>mime = ''image/webp'', ext = ''webp''\<rparr>)
     = (12 \<le> length buf \<and> take 4 buf = ascii_RIFF \<and> take 4 (drop 8 buf) = ascii_WEBP)
   \<and> (detectMimeFromBuffer buf = Some \<lparr>mime = ''model/gltf-binary'', ext = ''glb''\<rparr>)
     = (12 \<le> length buf \<and> take 4 buf = ascii_glTF)
   \<and> (detectMimeFromBuffer buf = None)
     = (length buf < 12 \<or>
        (take 4 buf \<noteq> [0x89, 0x50, 0x4E, 0x47] \<and> take 2 buf \<noteq> [0xFF, 0xD8]
         \<and> (take 4 buf \<noteq> ascii_RIFF \<or> take 4 (drop 8 buf) \<noteq> ascii_WEBP)
         \<and> take 4 buf \<noteq> ascii_glTF))"
proof (cases "12 \<le> length buf")
  case False
  then show ?thesis by (simp add: detectMimeFromBuffer_def)
next
  case True
  then have l4: "4 \<le> length buf" by simp
  show ?thesis
    using True
    by (simp add: detectMimeFromBuffer_def slice_def take4_eq [OF l4] take2_eq [OF l4]
        ascii_RIFF_def ascii_WEBP_def ascii_glTF_def)
qed

theorem detectMimeFromBuffer_classifies_witness:
  "detectMimeFromBuffer [0x52, 0x49, 0x46, 0x46, 0, 0, 0, 0, 0x57, 0x45, 0x42, 0x50]
     = Some \<lparr>mime = ''image/webp'', ext = ''webp''\<rparr>
   \<and> detectMimeFromBuffer [0x89, 0x50, 0x4E, 0x47, 0x0D, 0x0A, 0x1A, 0x0A] = None"
  using detectMimeFromBuffer_classifies
          [of "[0x52, 0x49, 0x46, 0x46, 0, 0, 0, 0, 0x57, 0x45, 0x42, 0x50]"]
        detectMimeFromBuffer_classifies [of "[0x89, 0x50, 0x4E, 0x47, 0x0D, 0x0A, 0x1A, 0x0A]"]
  by (simp add: ascii_RIFF_def ascii_WEBP_def)

subsection \<open>Assignments and saves\<close>

lemma by_id_put: "by_id as i = Some a \<Longrightarrow> aid a' = i \<Longrightarrow> by_id (put_asset as a') i = Some a'"
  by (induction as) (auto simp: by_id_def)

lemma by_id_aid: "by_id as i = Some a \<Longrightarrow> aid a = i"
  by (induction as) (auto simp: by_id_def split: if_splits)

lemma by_id_filter: "by_id (filter (\<lambda>b. aid b \<noteq> i) as) i = None"
  by (induction as) (auto simp: by_id_def)

lemma put_asset_same: "by_id as i = Some a \<Longrightarrow> put_asset as a = as"
proof (induction as)
  case Nil
  then show ?case by simp
next
  case (Cons b bs)
  have i: "aid a = i" using Cons.prems by (rule by_id_aid)
  show ?case
  proof (cases "aid b = i")
    case True
    then show ?thesis using Cons.prems i by (simp add: by_id_def)
  next
    case False
    then have "by_id bs i = Some a" using Cons.prems by (simp add: by_id_def)
    then show ?thesis using Cons.IH False i by simp
  qed
qed

lemma put_asset_map:
  "by_id as i = Some sub \<Longrightarrow> aid x = i \<Longrightarrow> f x = f sub \<Longrightarrow> map f (put_asset as x) = map f as"
proof (induction as)
  case Nil
  then show ?case by simp
next
  case (Cons b bs)
  show ?case
  proof (cases "aid b = i")
    case True
    then show ?thesis using Cons.prems by (simp add: by_id_def)
  next
    case False
    then have "by_id bs i = Some sub" using Cons.prems by (simp add: by_id_def)
    then show ?thesis using Cons.IH Cons.prems False by simp
  qed
qed

lemma set_glb_eq: "set_glb a url now = a\<lparr>glbUrl := Some url, status := Ready\<rparr>"
  by (simp add: set_glb_def)

lemma tracked_set_glb: "tracked a (set_glb a url now) = set_glb a url now"
  by (simp add: tracked_def set_glb_eq)

lemma save_fresh_set_segmented: "save_fresh as sub (set_segmented sub url) = NoSave"
  by (simp add: save_fresh_def tracked_def set_segmented_def)

lemma save_stale_set_segmented: "save_stale c (set_segmented c url) = Inr NoSave"
  by (simp add: save_stale_def tracked_def set_segmented_def)

lemma save_fresh_same_status:
  "save_fresh as sub (assign sub ''status'' (FStatus (status sub))) = NoSave"
  by (simp add: save_fresh_def tracked_def)

lemma save_stale_set_glb:
  "glbUrl c = None \<Longrightarrow> save_stale c (set_glb c url now) = Inl VersionError"
proof -
  assume n: "glbUrl c = None"
  have "glbUrl (set_glb c url now) = Some url" by (simp add: set_glb_eq)
  then have "set_glb c url now \<noteq> c" using n by auto
  then show ?thesis by (simp add: save_stale_def tracked_set_glb)
qed

lemma commit_save_fresh_set_glb:
  assumes u: "users w uid = Some as" and a: "by_id as i = Some a"
  shows "commit w uid (save_fresh as a (set_glb a url now))
           = w\<lparr>users := (users w)(uid \<mapsto> put_asset as (set_glb a url now))\<rparr>"
proof (cases "set_glb a url now = a")
  case True
  then have "put_asset as (set_glb a url now) = as" using a by (simp add: put_asset_same)
  then show ?thesis using True u by (simp add: save_fresh_def tracked_def fun_upd_idem)
next
  case False
  then show ?thesis by (simp add: save_fresh_def tracked_set_glb)
qed

subsection \<open>Asset routes\<close>

lemma startsWith_append: "startsWith (p @ b) p"
  by (simp add: startsWith_def)

lemma js_includes_here: "js_includes (p @ b) p"
proof (cases "p @ b")
  case Nil
  then show ?thesis by simp
next
  case (Cons x xs)
  have "startsWith (x # xs) p"
    using startsWith_append [of p b] Cons by simp
  then show ?thesis
    using Cons by simp
qed

lemma js_includes_append: "js_includes (a @ p @ b) p"
  by (induction a) (simp_all add: js_includes_here)

lemma basename_append:
  "name \<noteq> [] \<Longrightarrow> CHR ''/'' \<notin> set name \<Longrightarrow> basename (pre @ ''/'' @ name) = name"
proof -
  assume ne: "name \<noteq> []" and ns: "CHR ''/'' \<notin> set name"
  then obtain c cs where r: "rev name = c # cs" by (cases "rev name") auto
  with ns have c: "c \<noteq> CHR ''/''" by (metis list.set_intros(1) set_rev)
  have tw: "takeWhile (\<lambda>c. c \<noteq> CHR ''/'') (rev name @ CHR ''/'' # rev pre) = rev name"
    using ns by (subst takeWhile_append2) auto
  have "dropWhile (\<lambda>c. c = CHR ''/'') (rev name @ CHR ''/'' # rev pre) = rev name @ CHR ''/'' # rev pre"
    using r c by simp
  then show ?thesis using tw by (simp add: basename_def)
qed

text \<open>
  C10, as the code runs it. An attach-glb request of an existing user for an existing
  asset: with an uploaded file, or without a file but with a truthy primitive
  \<^verbatim>\<open>glbUrl\<close> in the body (any non-empty string; a number or \<^verbatim>\<open>true\<close>
  counts too and is stored as its text), the record at rest and the asset in the reply are
  the old record with \<^verbatim>\<open>glbUrl\<close> set to the locator and status ready. The
  handler reads neither directory, so the file's bytes and the URL's target are not
  examined. With no file and a falsy \<^verbatim>\<open>glbUrl\<close> the reply is the 400 error,
  with an object or array as \<^verbatim>\<open>glbUrl\<close> it is the 500 error, and in both
  cases no world is returned: the record stays as it was. The handler also assigns
  \<^verbatim>\<open>updatedAt\<close> and \<^verbatim>\<open>generatedAt\<close>, but the schema declares neither:
  the two assignments leave the document as it is, and the record at rest has no such
  dates.
\<close>

theorem attach_glb_sets_ready:
  assumes u: "users w (userId req) = Some as" and a: "by_id as i = Some a"
  shows "(file_name req = Some f \<longrightarrow>
            attach_glb w req i now =
              Inr (a\<lparr>glbUrl := Some (glb_url (protocol req) (host req) f), status := Ready\<rparr>,
                   w\<lparr>users := (users w)(userId req \<mapsto>
                        put_asset as (a\<lparr>glbUrl := Some (glb_url (protocol req) (host req) f),
                                         status := Ready\<rparr>))\<rparr>))
       \<and> (file_name req = None \<and> body_glbUrl req = Prim p \<and> truthy p \<longrightarrow>
            attach_glb w req i now =
              Inr (a\<lparr>glbUrl := Some (cast_string p), status := Ready\<rparr>,
                   w\<lparr>users := (users w)(userId req \<mapsto>
                        put_asset as (a\<lparr>glbUrl := Some (cast_string p),
                                         status := Ready\<rparr>))\<rparr>))
       \<and> (url \<noteq> [] \<longrightarrow> truthy (VStr url) \<and> cast_string (VStr url) = url)
       \<and> (file_name req = None \<and> body_glbUrl req = Prim p \<and> \<not> truthy p \<longrightarrow>
            attach_glb w req i now = Inl (Http 400 ''No GLB file or URL provided''))
       \<and> (file_name req = None \<and> body_glbUrl req = NonPrimitive \<longrightarrow>
            attach_glb w req i now = Inl (Http 500 ''Server error attaching GLB''))
       \<and> (\<forall>a' w'. attach_glb w req i now = Inr (a', w') \<longrightarrow>
            get_asset w' (userId req) i = Inr a' \<and> glbUrl a' \<noteq> None \<and> status a' = Ready
            \<and> a' = a\<lparr>glbUrl := glbUrl a', status := Ready\<rparr>
            \<and> imagesDir w' = imagesDir w \<and> glbDir w' = glbDir w)
       \<and> assign a ''updatedAt'' (FDate now) = a
       \<and> assign a ''generatedAt'' (FDate now) = a"
proof -
  have i: "aid a = i" using a by (rule by_id_aid)
  have put: "\<And>a'. aid a' = i \<Longrightarrow> by_id (put_asset as a') i = Some a'"
    using a by (rule by_id_put)
  have put': "\<And>a'. aid a' = aid a \<Longrightarrow> by_id (put_asset as a') (aid a) = Some a'"
    using put i by simp
  have c: "\<And>url. commit w (userId req)
                  (save_fresh as a (a\<lparr>glbUrl := Some url, status := Ready\<rparr>))
             = w\<lparr>users := (users w)(userId req \<mapsto>
                   put_asset as (a\<lparr>glbUrl := Some url, status := Ready\<rparr>))\<rparr>"
    using commit_save_fresh_set_glb [OF u a, of _ now] by (simp add: set_glb_eq)
  show ?thesis
    using u a i
    by (auto simp: attach_glb_def get_asset_def put put' c set_glb_eq
             split: option.splits if_splits jsval.splits)
qed

theorem attach_glb_sets_ready_witness:
  "users sample_world 1 = Some [sample_asset] \<and> by_id [sample_asset] 7 = Some sample_asset
   \<and> attach_glb sample_world
         \<lparr>userId = 1, protocol = ''http'', host = ''h'', file_name = None,
          body_glbUrl = Prim (VStr ''not a glb'')\<rparr> 7 200
       = Inr (sample_asset\<lparr>glbUrl := Some ''not a glb'', status := Ready\<rparr>,
              sample_world\<lparr>users := (users sample_world)(1 \<mapsto>
                 put_asset [sample_asset]
                   (sample_asset\<lparr>glbUrl := Some ''not a glb'', status := Ready\<rparr>))\<rparr>)
   \<and> attach_glb sample_world
         \<lparr>userId = 1, protocol = ''http'', host = ''h'', file_name = None,
          body_glbUrl = Prim VUndefined\<rparr> 7 200
       = Inl (Http 400 ''No GLB file or URL provided'')"
proof -
  have u: "users sample_world 1 = Some [sample_asset]"
    by (simp add: sample_world_def)
  have a: "by_id [sample_asset] 7 = Some sample_asset"
    by (simp add: by_id_def sample_asset_def)
  show ?thesis
    using u a
      attach_glb_sets_ready [where w = sample_world and as = "[sample_asset]" and i = 7
        and a = sample_asset and now = 200 and p = "VStr ''not a glb''"
        and req = "\<lparr>userId = 1, protocol = ''http'', host = ''h'', file_name = None,
          body_glbUrl = Prim (VStr ''not a glb'')\<rparr>"]
      attach_glb_sets_ready [where w = sample_world and as = "[sample_asset]" and i = 7
        and a = sample_asset and now = 200 and p = VUndefined
        and req = "\<lparr>userId = 1, protocol = ''http'', host = ''h'', file_name = None,
          body_glbUrl = Prim VUndefined\<rparr>"]
    by simp
qed

text \<open>
  C9. Deleting an existing asset succeeds, pulls the record from the user's array (a later
  GET answers "Asset not found"), and unlinks the files its two locators name: for an
  \<^verbatim>\<open>imageUrl\<close> of the form the store gives out
  (\<^verbatim>\<open>proto://host/uploads/images/name\<close>) the file \<open>name\<close> of the images
  directory is gone afterwards, and likewise for a \<^verbatim>\<open>glbUrl\<close> of the form
  \<^verbatim>\<open>proto://host/uploads/glb/name\<close> and the GLB directory.
\<close>

theorem delete_asset_removes:
  assumes u: "users w uid = Some as" and a: "by_id as i = Some a"
  shows "\<exists>w'. delete_asset w uid i = Inr w'
           \<and> users w' uid = Some (filter (\<lambda>b. aid b \<noteq> i) as)
           \<and> get_asset w' uid i = Inl (Http 404 ''Asset not found'')
           \<and> (\<forall>proto h name. name \<noteq> [] \<and> CHR ''/'' \<notin> set name
                  \<and> imageUrl a = image_url proto h name \<longrightarrow> imagesDir w' name = None)
           \<and> (\<forall>proto h name. name \<noteq> [] \<and> CHR ''/'' \<notin> set name
                  \<and> glbUrl a = Some (glb_url proto h name) \<longrightarrow> glbDir w' name = None)"
proof -
  have img: "unlink_named d (image_url proto h name) ''/uploads/images/'' name = None"
    if "name \<noteq> []" "CHR ''/'' \<notin> set name" for d proto h name
  proof -
    have b: "basename (image_url proto h name) = name"
      using basename_append [OF that, of "proto @ ''://'' @ h @ ''/uploads/images''"]
      by (simp add: image_url_def)
    have "js_includes (image_url proto h name) ''/uploads/images/''"
      using js_includes_append [of "proto @ ''://'' @ h" "''/uploads/images/''" name]
      by (simp add: image_url_def)
    then show ?thesis by (auto simp: unlink_named_def b)
  qed
  have glb: "unlink_named d (glb_url proto h name) ''/uploads/glb/'' name = None"
    if "name \<noteq> []" "CHR ''/'' \<notin> set name" for d proto h name
  proof -
    have b: "basename (glb_url proto h name) = name"
      using basename_append [OF that, of "proto @ ''://'' @ h @ ''/uploads/glb''"]
      by (simp add: glb_url_def)
    have "js_includes (glb_url proto h name) ''/uploads/glb/''"
      using js_includes_append [of "proto @ ''://'' @ h" "''/uploads/glb/''" name]
      by (simp add: glb_url_def)
    then show ?thesis by (auto simp: unlink_named_def b)
  qed
  show ?thesis
    using u a by (simp add: delete_asset_def get_asset_def by_id_filter img glb)
qed

theorem delete_asset_removes_witness:
  "users sample_world 1 = Some [sample_asset] \<and> by_id [sample_asset] 7 = Some sample_asset
   \<and> (\<exists>w'. delete_asset sample_world 1 7 = Inr w' \<and> users w' 1 = Some []
          \<and> imagesDir w' ''1-2.png'' = None)"
proof -
  have u: "users sample_world 1 = Some [sample_asset]"
    by (simp add: sample_world_def)
  have a: "by_id [sample_asset] 7 = Some sample_asset"
    by (simp add: by_id_def sample_asset_def)
  have i: "imageUrl sample_asset = image_url ''http'' ''localhost:5000'' ''1-2.png''"
    by (simp add: sample_asset_def image_url_def)
  obtain w' where w': "delete_asset sample_world 1 7 = Inr w'"
      "users w' 1 = Some (filter (\<lambda>b. aid b \<noteq> 7) [sample_asset])"
      "\<forall>proto h name. name \<noteq> [] \<and> CHR ''/'' \<notin> set name
          \<and> imageUrl sample_asset = image_url proto h name \<longrightarrow> imagesDir w' name = None"
    using delete_asset_removes [OF u a] by blast
  have "imagesDir w' ''1-2.png'' = None"
    using w'(3) i by auto
  moreover have "users w' 1 = Some []"
    using w'(2) by (simp add: sample_asset_def)
  ultimately show ?thesis using u a w'(1) by blast
qed

subsection \<open>Mesh-generation parameters and seed\<close>

text \<open>
  C4. What the mesh call receives. A numeric parameter that is absent goes out with its
  default (50, 7, 384, 100000), one that is present and not null goes out as its number,
  and the seed is the resolved seed. The flag \<^verbatim>\<open>simplify_mesh\<close> is
  \<open>false\<close> when absent; when present it goes out as the result of comparing it
  with \<^verbatim>\<open>"false"\<close> and \<^verbatim>\<open>false\<close>, so a supplied
  \<^verbatim>\<open>"true"\<close> or \<^verbatim>\<open>true\<close> is forwarded as \<open>false\<close>
  and a supplied \<^verbatim>\<open>"false"\<close> or \<^verbatim>\<open>false\<close> as \<open>true\<close>:
  the forwarded flag is not the supplied one.
\<close>

theorem build_payload_forwards:
  "num_steps (build_payload e (b\<lparr>b_num_steps := VUndefined\<rparr>) buf m s) = Num 50
   \<and> cfg_scale (build_payload e (b\<lparr>b_cfg_scale := VUndefined\<rparr>) buf m s) = Num 7
   \<and> grid_res (build_payload e (b\<lparr>b_grid_res := VUndefined\<rparr>) buf m s) = Num 384
   \<and> target_num_faces (build_payload e (b\<lparr>b_target_num_faces := VUndefined\<rparr>) buf m s)
       = Num 100000
   \<and> simplify_mesh (build_payload e (b\<lparr>b_simplify_mesh := VUndefined\<rparr>) buf m s)
       = VBool False
   \<and> input_image (build_payload e b buf m s) = buf
   \<and> seed3d (build_payload e b buf m s) = s
   \<and> num_steps (build_payload e (b\<lparr>b_num_steps := VNum n\<rparr>) buf m s) = n
   \<and> num_steps (build_payload e (b\<lparr>b_num_steps := VStr t\<rparr>) buf m s) = str_num e t
   \<and> simplify_mesh (build_payload e (b\<lparr>b_simplify_mesh := VStr ''true''\<rparr>) buf m s) = VBool False
   \<and> simplify_mesh (build_payload e (b\<lparr>b_simplify_mesh := VBool True\<rparr>) buf m s) = VBool False
   \<and> simplify_mesh (build_payload e (b\<lparr>b_simplify_mesh := VStr ''false''\<rparr>) buf m s) = VBool True
   \<and> simplify_mesh (build_payload e (b\<lparr>b_simplify_mesh := VBool False\<rparr>) buf m s) = VBool True"
  by (simp add: build_payload_def)

text \<open>
  C5, as the handler resolves the seed. The remote operation is called in every case, with
  the randomisation flag as the handler reads it and the supplied seed (0 when none was
  supplied or it is NaN). A number in the reply is the seed, a string of decimal digits in
  the reply is the seed it denotes; on any other reply, and when the call fails, the seed
  is the supplied one, or 0 when none was supplied.
\<close>

theorem resolve_seed_cases:
  assumes "arg = (case provided of Some (Num k) \<Rightarrow> Num k | _ \<Rightarrow> Num 0)"
    and "fallback = (case provided of None \<Rightarrow> Num 0 | Some k \<Rightarrow> k)"
  shows "(get_random_seed e (truthy r) arg = Returns (Val (VNum n)) \<longrightarrow>
            resolve_seed e provided r = n)
       \<and> (get_random_seed e (truthy r) arg = Returns (Val (VStr t)) \<and> all_digits t \<longrightarrow>
            resolve_seed e provided r = str_num e t)
       \<and> (get_random_seed e (truthy r) arg = Returns (Val (VStr t)) \<and> \<not> all_digits t \<longrightarrow>
            resolve_seed e provided r = fallback)
       \<and> (get_random_seed e (truthy r) arg = Returns (Val VUndefined)
          \<or> get_random_seed e (truthy r) arg = Returns (Val VNull)
          \<or> get_random_seed e (truthy r) arg = Returns (Val (VBool b))
          \<or> get_random_seed e (truthy r) arg = Returns (Bin bs)
          \<or> get_random_seed e (truthy r) arg = Returns (Obj ob) \<longrightarrow>
            resolve_seed e provided r = fallback)
       \<and> (get_random_seed e (truthy r) arg = Throws \<longrightarrow> resolve_seed e provided r = fallback)"
  using assms by (auto simp: resolve_seed_def)

theorem resolve_seed_cases_witness:
  "resolve_seed env0 (Some (Num 5)) (VBool False) = Num 5
   \<and> resolve_seed (env0\<lparr>get_random_seed := get_random_seed_fails\<rparr>) None (VBool True) = Num 0
   \<and> resolve_seed (env0\<lparr>get_random_seed := get_random_seed_fails\<rparr>) (Some (Num 5)) (VBool True)
       = Num 5"
  using resolve_seed_cases [where e = env0 and provided = "Some (Num 5)" and r = "VBool False"
          and arg = "Num 5" and fallback = "Num 5" and n = "Num 5"]
        resolve_seed_cases [where e = "env0\<lparr>get_random_seed := get_random_seed_fails\<rparr>"
          and provided = None and r = "VBool True" and arg = "Num 0" and fallback = "Num 0"]
        resolve_seed_cases [where e = "env0\<lparr>get_random_seed := get_random_seed_fails\<rparr>"
          and provided = "Some (Num 5)" and r = "VBool True" and arg = "Num 5"
          and fallback = "Num 5"]
  by (simp add: env0_def get_random_seed_fails_def)

text \<open>
  C5 as stated fails: with a seed supplied and no randomisation requested, the seed used is
  the remote reply, here 7 for the supplied seed 5.
\<close>

theorem resolve_seed_uses_reply:
  "resolve_seed (env0\<lparr>get_random_seed := get_random_seed_7\<rparr>) (Some (Num 5)) (VBool False)
     = Num 7"
  by (simp add: resolve_seed_def get_random_seed_7_def)

subsection \<open>Normalisation of replies of no recognised shape\<close>

lemma show_nat_3: "show_nat 3 = ''3''"
  by code_simp

lemma show_nat_4: "show_nat 4 = ''4''"
  by code_simp















subsection \<open>What the two steps of an upload write\<close>

lemma fetch_image_users: "fetch_image e w u proto h now rnd = (g, w') \<Longrightarrow> users w' = users w"
  by (auto simp: fetch_image_def saveBufferAsImage_def Let_def
           split: fetch_result.splits option.splits)

lemma normalize_image_string_users:
  "normalize_image e w (Val (VStr s)) proto h now rnd = Inr (g, w') \<Longrightarrow> users w' = users w"
  by (auto simp: normalize_image_def saveBufferAsImage_def Let_def
           split: if_splits option.splits list.splits dest: fetch_image_users)

lemma normalize_image_object_users:
  "normalize_image e w (Obj r) proto h now rnd = Inr (g, w') \<Longrightarrow> users w' = users w"
  by (auto simp: normalize_image_def saveBufferAsImage_def Let_def
           split: if_splits jsval.splits prim.splits dest: fetch_image_users)

lemma normalize_image_users:
  assumes n: "normalize_image e w rawOut proto h now rnd = Inr (g, w')"
  shows "users w' = users w"
proof (cases rawOut)
  case (Val p)
  show ?thesis
  proof (cases p)
    case (VStr s)
    then show ?thesis using n Val normalize_image_string_users by blast
  qed (use n Val in \<open>auto simp: normalize_image_def saveBufferAsImage_def Let_def\<close>)
next
  case (Bin b)
  then show ?thesis
    using n by (auto simp: normalize_image_def saveBufferAsImage_def Let_def)
next
  case (Obj r)
  then show ?thesis using n normalize_image_object_users by blast
qed

lemma attach_segmented_cases: "attach_segmented fu j url = Inr wr \<Longrightarrow> wr = NoSave"
  by (auto simp: attach_segmented_def save_fresh_set_segmented save_stale_set_segmented
           split: option.splits)

lemma segment_step_writes:
  "users (sr_world (segment_step e w j now rnd)) = users w
   \<and> sr_write (segment_step e w j now rnd) = NoSave"
proof (cases "connects e \<and> imagesDir w (j_filename j) \<noteq> None")
  case False
  then show ?thesis by (auto simp: segment_step_def)
next
  case True
  then obtain fileBuffer where Some: "imagesDir w (j_filename j) = Some fileBuffer"
    and ce: "connects e" by auto
  show ?thesis
  proof (cases "process_image e fileBuffer
                  (if j_mimetype j = [] then ''image/png'' else j_mimetype j)")
    case Throws
    then show ?thesis using ce Some by (simp add: segment_step_def)
  next
    case (Returns rawOut)
    show ?thesis
    proof (cases "normalize_image e w rawOut (j_protocol j) (j_host j) now rnd")
      case (Inl x)
      then show ?thesis using ce Some Returns by (simp add: segment_step_def)
    next
      case (Inr gw)
      obtain g w' where gw: "gw = (g, w')" by (cases gw)
      have uw: "users w' = users w"
        using Inr gw normalize_image_users by blast
      show ?thesis
      proof (cases g)
        case None
        then show ?thesis using ce Some Returns Inr gw uw by (simp add: segment_step_def)
      next
        case g: (Some url)
        show ?thesis
        proof (cases "attach_segmented (users w (j_uid j)) j url")
          case (Inl x)
          then show ?thesis
            using ce Some Returns Inr gw uw g by (simp add: segment_step_def)
        next
          case a: (Inr wr)
          then have "wr = NoSave" by (rule attach_segmented_cases)
          then show ?thesis
            using ce Some Returns Inr gw uw g a by (simp add: segment_step_def)
        qed
      qed
    qed
  qed
qed

lemma fetch_glb_users: "fetch_glb e w u proto h now rnd = (g, w') \<Longrightarrow> users w' = users w"
  by (auto simp: fetch_glb_def saveBufferAsGlb_def Let_def
           split: fetch_result.splits option.splits)

lemma normalize_glb_string_users:
  "normalize_glb e w (Val (VStr s)) proto h now rnd = Inr (g, w') \<Longrightarrow> users w' = users w"
  by (auto simp: normalize_glb_def saveBufferAsGlb_def Let_def
           split: if_splits option.splits list.splits dest: fetch_glb_users)

lemma normalize_glb_object_users:
  "normalize_glb e w (Obj r) proto h now rnd = Inr (g, w') \<Longrightarrow> users w' = users w"
  by (auto simp: normalize_glb_def saveBufferAsImage_def Let_def
           split: if_splits jsval.splits prim.splits dest: fetch_glb_users)

lemma normalize_glb_users:
  assumes n: "normalize_glb e w raw3d proto h now rnd = Inr (g, w')"
  shows "users w' = users w"
proof (cases raw3d)
  case (Val p)
  show ?thesis
  proof (cases p)
    case (VStr s)
    then show ?thesis using n Val normalize_glb_string_users by blast
  qed (use n Val in \<open>simp_all add: normalize_glb_def\<close>)
next
  case (Bin b)
  then show ?thesis
    using n by (auto simp: normalize_glb_def saveBufferAsGlb_def Let_def)
next
  case (Obj r)
  then show ?thesis using n normalize_glb_object_users by blast
qed

lemma attach_generated_cases:
  "attach_generated (Some as) created i glb now = Inr wr \<Longrightarrow>
     wr = NoSave
     \<or> (\<exists>sub url. by_id as i = Some sub \<and> wr = Save (put_asset as (set_glb sub url now)))"
  by (auto simp: attach_generated_def save_fresh_def save_stale_def tracked_set_glb
           split: option.splits if_splits)

lemma attach_generated_no_user:
  "attach_generated None created i glb now = Inr wr \<Longrightarrow> wr = NoSave"
  by (auto simp: attach_generated_def split: option.splits if_splits)

lemma abort_3d_cases: "abort_3d fu i = Inr wr \<Longrightarrow> wr = NoSave"
  by (auto simp: abort_3d_def save_fresh_def tracked_def split: option.splits)

lemma background_writes:
  "users (bg_world (background e w j u now rnd)) = users w
   \<and> (bg_write (background e w j u now rnd) = NoSave
      \<or> (\<exists>as sub url. users w (j_uid j) = Some as \<and> by_id as (j_assetId j) = Some sub
            \<and> bg_write (background e w j u now rnd)
                = Save (put_asset as (set_glb sub url now))))"
proof (cases "connects e \<and> \<not> isl (select_source e w u (j_filename j))")
  case False
  then show ?thesis
    by (cases "select_source e w u (j_filename j)") (auto simp: background_def Let_def)
next
  case True
  then obtain sel where Inr: "select_source e w u (j_filename j) = Inr sel" and ce: "connects e"
    by (cases "select_source e w u (j_filename j)") auto
  show ?thesis
  proof (cases sel)
    case AbortNotImage
    show ?thesis
    proof (cases "abort_3d (users w (j_uid j)) (j_assetId j)")
      case (Inl x)
      then show ?thesis using ce Inr AbortNotImage by (simp add: background_def Let_def)
    next
      case a: (Inr wr)
      then have "wr = NoSave" by (rule abort_3d_cases)
      then show ?thesis using ce Inr AbortNotImage a by (simp add: background_def Let_def)
    qed
  next
    case (Send buf0 mime0 det)
    obtain bufferToSend mimeToSend where c: "convert_webp e det buf0 mime0 = (bufferToSend, mimeToSend)"
      by (cases "convert_webp e det buf0 mime0")
    let ?pl = "build_payload e (j_body j) bufferToSend mimeToSend
                 (resolve_seed e (j_providedSeed j)
                    (destructure_default (b_randomize_seed (j_body j)) (VBool False)))"
    show ?thesis
    proof (cases "process_3d e ?pl")
      case Throws
      then show ?thesis using ce Inr Send c by (simp add: background_def Let_def)
    next
      case (Returns raw3d)
      show ?thesis
      proof (cases "normalize_glb e w raw3d (j_protocol j) (j_host j) now rnd")
        case (Inl x)
        then show ?thesis using ce Inr Send c Returns by (simp add: background_def Let_def)
      next
        case nr: (Inr gw)
        obtain g w' where gw: "gw = (g, w')" by (cases gw)
        have uw: "users w' = users w"
          using nr gw normalize_glb_users by blast
        show ?thesis
        proof (cases "users w (j_uid j)")
          case None
          then show ?thesis
            using ce Inr Send c Returns nr gw uw
              attach_generated_no_user [of "j_created j" "j_assetId j" g now]
            by (auto simp: background_def Let_def split: sum.splits)
        next
          case (Some as)
          then show ?thesis
            using ce Inr Send c Returns nr gw uw
              attach_generated_cases [of as "j_created j" "j_assetId j" g now]
            by (auto simp: background_def Let_def split: sum.splits)
        qed
      qed
    qed
  qed
qed

lemma begin_upload_created:
  "begin_upload e w req new_id now = Inr (j, w') \<Longrightarrow>
   glbUrl (j_created j) = None \<and> status (j_created j) = Pending \<and> aid (j_created j) = j_assetId j"
  by (auto simp: begin_upload_def Let_def split: option.splits prod.splits)

subsection \<open>Record updates that race with a deletion\<close>

text \<open>
  C2, as the handler treats a record that is gone. An upload created its asset; when a
  later update reads the user again, the user is there and the asset is not (it was
  deleted meanwhile). No update reaches the store and nothing reaches the caller: Step A
  and the background function send no save, the user's records stay as read, and the asset
  stays absent. The update is not ignored silently, though. Both updates fall back to the
  handler's own copy of the created asset, in the user document loaded when the request
  began, and save that document. For the segmented image that save carries no change and
  succeeds, so Step A ends without an error once the normaliser gave a locator. For a
  generated GLB the store refuses the save with a version error: the attach step throws,
  and the \<^verbatim>\<open>catch\<close> of the background function logs the error. Only the abort
  path does nothing when the record is not found.
\<close>

theorem missing_record_not_written_back:
  assumes "begin_upload e0 w0 req new_id t0 = Inr (j, w1)"
    and "users w (j_uid j) = Some as"
    and "by_id as (j_assetId j) = None"
  shows "attach_segmented (users w (j_uid j)) j segUrl = Inr NoSave
       \<and> (url \<noteq> [] \<longrightarrow>
            attach_generated (users w (j_uid j)) (j_created j) (j_assetId j) (Some url) now
              = Inl VersionError)
       \<and> abort_3d (users w (j_uid j)) (j_assetId j) = Inr NoSave
       \<and> sr_write (segment_step e w j now rnd) = NoSave
       \<and> users (sr_world (segment_step e w j now rnd)) = users w
       \<and> (sr_url (segment_step e w j now rnd) \<noteq> None \<longrightarrow>
            sr_caught (segment_step e w j now rnd) = None)
       \<and> bg_write (background e w j u now rnd) = NoSave
       \<and> users (bg_world (background e w j u now rnd)) = users w
       \<and> (connects e \<and> select_source e w u (j_filename j) = Inr (Send buf m det)
          \<and> process_3d e
               (build_payload e (j_body j) (fst (convert_webp e det buf m))
                  (snd (convert_webp e det buf m))
                  (resolve_seed e (j_providedSeed j)
                     (destructure_default (b_randomize_seed (j_body j)) (VBool False))))
             = Returns raw3d
          \<and> normalize_glb e w raw3d (j_protocol j) (j_host j) now rnd = Inr (Some url, w')
          \<and> url \<noteq> [] \<longrightarrow>
            bg_caught (background e w j u now rnd) = Some VersionError
            \<and> bg_world (background e w j u now rnd) = w')
       \<and> get_asset (commit (sr_world (segment_step e w j now rnd)) (j_uid j)
                      (sr_write (segment_step e w j now rnd))) (j_uid j) (j_assetId j)
           = Inl (Http 404 ''Asset not found'')
       \<and> get_asset (commit (bg_world (background e w j u now rnd)) (j_uid j)
                      (bg_write (background e w j u now rnd))) (j_uid j) (j_assetId j)
           = Inl (Http 404 ''Asset not found'')"
proof -
  note u = assms(2) and nf = assms(3)
  have c: "glbUrl (j_created j) = None"
    using begin_upload_created [OF assms(1)] by simp
  have seg: "attach_segmented (users w (j_uid j)) j segUrl = Inr NoSave" for segUrl
    using u nf by (simp add: attach_segmented_def save_stale_set_segmented)
  have gen: "attach_generated (users w' (j_uid j)) (j_created j) (j_assetId j) (Some url) now
               = Inl VersionError"
    if "url \<noteq> []" and "users w' = users w" for w' :: world
    using that u nf c by (simp add: attach_generated_def save_stale_set_glb)
  have ab: "abort_3d (users w (j_uid j)) (j_assetId j) = Inr NoSave"
    using u nf by (simp add: abort_3d_def)
  have sw: "sr_write (segment_step e w j now rnd) = NoSave"
    and su: "users (sr_world (segment_step e w j now rnd)) = users w"
    using segment_step_writes [of e w j now rnd] by simp_all
  have sc: "sr_caught (segment_step e w j now rnd) = None"
    if s: "sr_url (segment_step e w j now rnd) \<noteq> None"
  proof -
    have a: "attach_segmented (users w2 (j_uid j)) j x = Inr NoSave"
      if "users w2 = users w" for w2 :: world and x
      using that u nf by (simp add: attach_segmented_def save_stale_set_segmented)
    show ?thesis
      using s
      by (auto simp: segment_step_def a dest: normalize_image_users
               split: if_splits option.splits remote.splits sum.splits prod.splits)
  qed
  have bw: "bg_write (background e w j u now rnd) = NoSave"
    and bu: "users (bg_world (background e w j u now rnd)) = users w"
    using background_writes [of e w j u now rnd] u nf by auto
  have bc: "bg_caught (background e w j u now rnd) = Some VersionError
            \<and> bg_world (background e w j u now rnd) = w'"
    if ce: "connects e" and sel: "select_source e w u (j_filename j) = Inr (Send buf m det)"
      and p: "process_3d e
               (build_payload e (j_body j) (fst (convert_webp e det buf m))
                  (snd (convert_webp e det buf m))
                  (resolve_seed e (j_providedSeed j)
                     (destructure_default (b_randomize_seed (j_body j)) (VBool False))))
             = Returns raw3d"
      and n: "normalize_glb e w raw3d (j_protocol j) (j_host j) now rnd = Inr (Some url, w')"
      and ne: "url \<noteq> []"
  proof -
    have "users w' = users w" using n by (rule normalize_glb_users)
    then have "attach_generated (users w' (j_uid j)) (j_created j) (j_assetId j) (Some url) now
                 = Inl VersionError"
      using gen ne by blast
    then show ?thesis
      using ce sel p n by (simp add: background_def Let_def split_beta)
  qed
  have g1: "get_asset (commit (sr_world (segment_step e w j now rnd)) (j_uid j)
                      (sr_write (segment_step e w j now rnd))) (j_uid j) (j_assetId j)
           = Inl (Http 404 ''Asset not found'')"
    using sw su u nf by (simp add: get_asset_def)
  have g2: "get_asset (commit (bg_world (background e w j u now rnd)) (j_uid j)
                      (bg_write (background e w j u now rnd))) (j_uid j) (j_assetId j)
           = Inl (Http 404 ''Asset not found'')"
    using bw bu u nf by (simp add: get_asset_def)
  have g0: "url \<noteq> [] \<longrightarrow>
            attach_generated (users w (j_uid j)) (j_created j) (j_assetId j) (Some url) now
              = Inl VersionError"
    using gen [of w] by simp
  show ?thesis
    apply (rule conjI [OF seg])
    apply (rule conjI [OF g0])
    apply (rule conjI [OF ab])
    apply (rule conjI [OF sw])
    apply (rule conjI [OF su])
    apply (rule conjI)
     apply (rule impI, erule sc)
    apply (rule conjI [OF bw])
    apply (rule conjI [OF bu])
    apply (rule conjI)
     apply (rule impI, elim conjE, erule (4) bc)
    apply (rule conjI [OF g1])
    apply (rule g2)
    done
qed

lemma code_digit_5: "code CHR ''5'' = 53"
  by (simp add: code_def)

lemma begin_sample_upload:
  "begin_upload env0 world_deleted sample_upload 7 100 = Inr (sample_job, sample_world)"
  by (simp add: begin_upload_def world_deleted_def sample_upload_def sample_world_def
      sample_job_def sample_asset_def parse_seed_def env0_def decimal_def all_digits_def
      is_digit_def code_digit_5 empty_body_def Let_def)

lemma background_deleted:
  "select_source (env0\<lparr>process_3d := process_3d_glb\<rparr>) world_deleted None ''1-2.png''
     = Inr (Send png_bytes ''image/png'' (Some \<lparr>mime = ''image/png'', ext = ''png''\<rparr>))
   \<and> convert_webp (env0\<lparr>process_3d := process_3d_glb\<rparr>)
        (Some \<lparr>mime = ''image/png'', ext = ''png''\<rparr>) png_bytes ''image/png''
     = (png_bytes, ''image/png'')
   \<and> normalize_glb (env0\<lparr>process_3d := process_3d_glb\<rparr>) world_deleted (Bin glb_bytes)
        ''http'' ''localhost:5000'' 3 4
     = Inr (Some ''http://localhost:5000/uploads/glb/generated-3-4.glb'',
            world_deleted\<lparr>glbDir := [''generated-3-4.glb'' \<mapsto> glb_bytes]\<rparr>)"
  by (simp add: select_source_def world_deleted_def sample_world_def detectMimeFromBuffer_def
      png_bytes_def is_image_def startsWith_def convert_webp_def normalize_glb_def
      saveBufferAsGlb_def show_nat_3 show_nat_4 glb_url_def Let_def)

theorem missing_record_not_written_back_witness:
  "begin_upload env0 world_deleted sample_upload 7 100 = Inr (sample_job, sample_world)
   \<and> users world_deleted 1 = Some [] \<and> by_id [] 7 = None
   \<and> attach_segmented (users world_deleted 1) sample_job ''http://h/s.png'' = Inr NoSave
   \<and> attach_generated (users world_deleted 1) sample_asset 7 (Some ''http://h/m.glb'') 3
       = Inl VersionError
   \<and> bg_write (background (env0\<lparr>process_3d := process_3d_glb\<rparr>) world_deleted sample_job None 3 4)
       = NoSave
   \<and> bg_caught (background (env0\<lparr>process_3d := process_3d_glb\<rparr>) world_deleted sample_job None 3 4)
       = Some VersionError
   \<and> glbDir (bg_world (background (env0\<lparr>process_3d := process_3d_glb\<rparr>) world_deleted
        sample_job None 3 4)) ''generated-3-4.glb'' = Some glb_bytes
   \<and> get_asset (commit (bg_world (background (env0\<lparr>process_3d := process_3d_glb\<rparr>)
                                     world_deleted sample_job None 3 4)) 1
                  (bg_write (background (env0\<lparr>process_3d := process_3d_glb\<rparr>)
                                     world_deleted sample_job None 3 4))) 1 7
       = Inl (Http 404 ''Asset not found'')"
proof -
  have u: "users world_deleted (j_uid sample_job) = Some []"
    by (simp add: world_deleted_def sample_job_def)
  have n: "by_id [] (j_assetId sample_job) = None"
    by (simp add: by_id_def)
  have j: "j_uid sample_job = 1" "j_assetId sample_job = 7" "j_created sample_job = sample_asset"
    "j_filename sample_job = ''1-2.png''" "j_protocol sample_job = ''http''"
    "j_host sample_job = ''localhost:5000''"
    by (simp_all add: sample_job_def)
  have c: "connects (env0\<lparr>process_3d := process_3d_glb\<rparr>)"
    by (simp add: env0_def)
  have p: "process_3d (env0\<lparr>process_3d := process_3d_glb\<rparr>) pl = Returns (Bin glb_bytes)" for pl
    by (simp add: process_3d_glb_def)
  have g1: "''http://h/m.glb'' \<noteq> []" and g2: "''http://localhost:5000/uploads/glb/generated-3-4.glb'' \<noteq> []"
    by simp_all
  show ?thesis
    using missing_record_not_written_back [OF begin_sample_upload u n,
        where e = "env0\<lparr>process_3d := process_3d_glb\<rparr>" and u = None and now = 3 and rnd = 4
        and segUrl = "''http://h/s.png''" and url = "''http://h/m.glb''"]
      missing_record_not_written_back [OF begin_sample_upload u n,
        where e = "env0\<lparr>process_3d := process_3d_glb\<rparr>" and u = None and now = 3 and rnd = 4
        and url = "''http://localhost:5000/uploads/glb/generated-3-4.glb''"
        and buf = png_bytes and m = "''image/png''"
        and det = "Some \<lparr>mime = ''image/png'', ext = ''png''\<rparr>" and ?raw3d = "Bin glb_bytes"
        and w' = "world_deleted\<lparr>glbDir := [''generated-3-4.glb'' \<mapsto> glb_bytes]\<rparr>"]
      begin_sample_upload u n j c p background_deleted
    by (simp add: by_id_def)
qed

text \<open>
  C2 as stated fails: with the asset deleted and a GLB produced, the attach step does
  raise an error. The save of the handler's own document is refused, and the
  \<^verbatim>\<open>catch\<close> of the background function receives the version error.
\<close>

theorem missing_record_update_raises:
  "bg_caught (background (env0\<lparr>process_3d := process_3d_glb\<rparr>) world_deleted sample_job None 3 4)
     = Some VersionError"
  by (simp add: background_def select_source_def world_deleted_def sample_world_def
      detectMimeFromBuffer_def png_bytes_def is_image_def startsWith_def convert_webp_def
      process_3d_glb_def normalize_glb_def saveBufferAsGlb_def show_nat_3 show_nat_4
      glb_url_def attach_generated_def by_id_def sample_job_def sample_asset_def
      save_stale_def tracked_def set_glb_eq env0_def Let_def)

subsection \<open>Source image of the mesh generation\<close>

lemma is_image_detect:
  "is_image (detectMimeFromBuffer buf) =
     (\<exists>d. detectMimeFromBuffer buf = Some d \<and> (ext d = ''png'' \<or> ext d = ''jpg'' \<or> ext d = ''webp''))"
  by (auto simp: is_image_def detectMimeFromBuffer_def startsWith_def split: option.splits)

lemma convert_webp_same:
  "\<not> is_image (detectMimeFromBuffer b) \<or> ext (the (detectMimeFromBuffer b)) \<noteq> ''webp''
     \<or> sharp e = None \<Longrightarrow>
   convert_webp e (detectMimeFromBuffer b) buf m = (buf, m)"
  by (auto simp: convert_webp_def is_image_detect split: option.splits)

lemma abort_3d_user: "abort_3d (Some as) i = Inr NoSave"
  by (cases "by_id as i") (simp_all add: abort_3d_def save_fresh_def tracked_def)

lemma background_sends:
  assumes "connects e" and "select_source e w u (j_filename j) = Inr (Send buf m det)"
  shows "map_option input_image (bg_sent (background e w j u now rnd))
           = Some (fst (convert_webp e det buf m))
       \<and> map_option input_mime (bg_sent (background e w j u now rnd))
           = Some (snd (convert_webp e det buf m))"
  using assms
  by (simp add: background_def build_payload_def Let_def split_beta
           split: remote.splits sum.splits prod.splits)

text \<open>
  C7. When the segmented image's file is there, it is the image sent if the sniffer says
  its bytes are an image (PNG, JPEG or WebP); if not, the uploaded file is sent, provided
  the sniffer says that one is an image; if neither is, the selection is the abort. Without
  a segmented image the uploaded file is the candidate. The buffer selected is the
  \<^verbatim>\<open>input_image\<close> of the payload the background function passes to
  \<^verbatim>\<open>/process_3d\<close>, as it is, or converted to PNG when the first file sniffed
  is WebP and \<^verbatim>\<open>sharp\<close> is there. On the abort, the background function sends
  nothing to the mesh generator, writes no file, and sends no change to the store: the
  world after it is the world before. No exception leaves the function; when the client
  connects and the user exists none is raised at all.
\<close>

theorem select_source_prefers_segmented:
  assumes "segUrl \<noteq> []" and "url_base e segUrl = Some f" and "imagesDir w f = Some segBuffer"
    and "imagesDir w orig = Some origBuf"
  shows "(is_image (detectMimeFromBuffer segBuffer) \<longrightarrow>
            select_source e w (Some segUrl) orig =
              Inr (Send segBuffer (mime (the (detectMimeFromBuffer segBuffer)))
                     (detectMimeFromBuffer segBuffer)))
       \<and> (\<not> is_image (detectMimeFromBuffer segBuffer) \<and> is_image (detectMimeFromBuffer origBuf) \<longrightarrow>
            select_source e w (Some segUrl) orig =
              Inr (Send origBuf (mime (the (detectMimeFromBuffer origBuf)))
                     (detectMimeFromBuffer segBuffer)))
       \<and> (\<not> is_image (detectMimeFromBuffer segBuffer) \<and> \<not> is_image (detectMimeFromBuffer origBuf) \<longrightarrow>
            select_source e w (Some segUrl) orig = Inr AbortNotImage)
       \<and> (is_image (detectMimeFromBuffer origBuf) \<longrightarrow>
            select_source e w None orig =
              Inr (Send origBuf (mime (the (detectMimeFromBuffer origBuf)))
                     (detectMimeFromBuffer origBuf)))
       \<and> (\<not> is_image (detectMimeFromBuffer origBuf) \<longrightarrow>
            select_source e w None orig = Inr AbortNotImage)
       \<and> is_image (detectMimeFromBuffer segBuffer) =
            (\<exists>d. detectMimeFromBuffer segBuffer = Some d
                 \<and> (ext d = ''png'' \<or> ext d = ''jpg'' \<or> ext d = ''webp''))
       \<and> (\<forall>j u now rnd buf m det.
            connects e \<and> select_source e w u (j_filename j) = Inr (Send buf m det) \<longrightarrow>
              map_option input_image (bg_sent (background e w j u now rnd))
                = Some (fst (convert_webp e det buf m))
              \<and> map_option input_mime (bg_sent (background e w j u now rnd))
                = Some (snd (convert_webp e det buf m)))
       \<and> (\<forall>j now rnd.
            connects e \<and> j_filename j = orig \<and> is_image (detectMimeFromBuffer segBuffer)
            \<and> (ext (the (detectMimeFromBuffer segBuffer)) \<noteq> ''webp'' \<or> sharp e = None) \<longrightarrow>
              map_option input_image (bg_sent (background e w j (Some segUrl) now rnd))
                = Some segBuffer)
       \<and> (\<forall>j now rnd.
            connects e \<and> j_filename j = orig \<and> \<not> is_image (detectMimeFromBuffer segBuffer)
            \<and> is_image (detectMimeFromBuffer origBuf) \<longrightarrow>
              map_option input_image (bg_sent (background e w j (Some segUrl) now rnd))
                = Some origBuf)
       \<and> (\<forall>b buf m.
            \<not> is_image (detectMimeFromBuffer b) \<or> ext (the (detectMimeFromBuffer b)) \<noteq> ''webp''
              \<or> sharp e = None \<longrightarrow>
            convert_webp e (detectMimeFromBuffer b) buf m = (buf, m))
       \<and> (\<forall>j u now rnd.
            select_source e w u (j_filename j) = Inr AbortNotImage \<longrightarrow>
              bg_world (background e w j u now rnd) = w
              \<and> bg_sent (background e w j u now rnd) = None
              \<and> bg_write (background e w j u now rnd) = NoSave
              \<and> (bg_caught (background e w j u now rnd) = None
                 \<or> bg_caught (background e w j u now rnd) = Some TypeError
                 \<or> bg_caught (background e w j u now rnd) = Some RemoteError)
              \<and> (connects e \<and> users w (j_uid j) \<noteq> None \<longrightarrow>
                    bg_caught (background e w j u now rnd) = None)
              \<and> commit (bg_world (background e w j u now rnd)) (j_uid j)
                    (bg_write (background e w j u now rnd)) = w)"
proof -
  have sel: "select_source e w (Some segUrl) orig =
      (if \<not> is_image (detectMimeFromBuffer segBuffer)
       then (if \<not> is_image (detectMimeFromBuffer origBuf) then Inr AbortNotImage
             else Inr (Send origBuf (mime (the (detectMimeFromBuffer origBuf)))
                         (detectMimeFromBuffer segBuffer)))
       else Inr (Send segBuffer (mime (the (detectMimeFromBuffer segBuffer)))
                   (detectMimeFromBuffer segBuffer)))"
    using assms by (simp add: select_source_def Let_def domI)
  have none: "select_source e w None orig =
      (if \<not> is_image (detectMimeFromBuffer origBuf) then Inr AbortNotImage
       else Inr (Send origBuf (mime (the (detectMimeFromBuffer origBuf)))
                   (detectMimeFromBuffer origBuf)))"
    using assms by (simp add: select_source_def Let_def)
  have ab: "bg_world (background e w j u now rnd) = w
        \<and> bg_sent (background e w j u now rnd) = None
        \<and> bg_write (background e w j u now rnd) = NoSave
        \<and> (bg_caught (background e w j u now rnd) = None
           \<or> bg_caught (background e w j u now rnd) = Some TypeError
           \<or> bg_caught (background e w j u now rnd) = Some RemoteError)
        \<and> (connects e \<and> users w (j_uid j) \<noteq> None \<longrightarrow>
              bg_caught (background e w j u now rnd) = None)
        \<and> commit (bg_world (background e w j u now rnd)) (j_uid j)
              (bg_write (background e w j u now rnd)) = w"
    if a: "select_source e w u (j_filename j) = Inr AbortNotImage" for j u now rnd
  proof (cases "connects e")
    case False
    then show ?thesis by (simp add: background_def Let_def)
  next
    case True
    show ?thesis
    proof (cases "users w (j_uid j)")
      case None
      then show ?thesis using a True by (simp add: background_def abort_3d_def Let_def)
    next
      case (Some as)
      then have "abort_3d (users w (j_uid j)) (j_assetId j) = Inr NoSave"
        by (simp add: abort_3d_user)
      then show ?thesis using a Some True by (simp add: background_def Let_def)
    qed
  qed
  have choice: "(is_image (detectMimeFromBuffer segBuffer) \<longrightarrow>
            select_source e w (Some segUrl) orig =
              Inr (Send segBuffer (mime (the (detectMimeFromBuffer segBuffer)))
                     (detectMimeFromBuffer segBuffer)))
       \<and> (\<not> is_image (detectMimeFromBuffer segBuffer) \<and> is_image (detectMimeFromBuffer origBuf) \<longrightarrow>
            select_source e w (Some segUrl) orig =
              Inr (Send origBuf (mime (the (detectMimeFromBuffer origBuf)))
                     (detectMimeFromBuffer segBuffer)))
       \<and> (\<not> is_image (detectMimeFromBuffer segBuffer) \<and> \<not> is_image (detectMimeFromBuffer origBuf) \<longrightarrow>
            select_source e w (Some segUrl) orig = Inr AbortNotImage)
       \<and> (is_image (detectMimeFromBuffer origBuf) \<longrightarrow>
            select_source e w None orig =
              Inr (Send origBuf (mime (the (detectMimeFromBuffer origBuf)))
                     (detectMimeFromBuffer origBuf)))
       \<and> (\<not> is_image (detectMimeFromBuffer origBuf) \<longrightarrow>
            select_source e w None orig = Inr AbortNotImage)"
    using sel none by simp
  have link: "map_option input_image (bg_sent (background e w j u now rnd))
                = Some (fst (convert_webp e det buf m))
              \<and> map_option input_mime (bg_sent (background e w j u now rnd))
                = Some (snd (convert_webp e det buf m))"
    if "connects e \<and> select_source e w u (j_filename j) = Inr (Send buf m det)"
    for j u now rnd buf m det
    using that background_sends by blast
  have seg: "map_option input_image (bg_sent (background e w j (Some segUrl) now rnd))
                = Some segBuffer"
    if h: "connects e \<and> j_filename j = orig \<and> is_image (detectMimeFromBuffer segBuffer)
            \<and> (ext (the (detectMimeFromBuffer segBuffer)) \<noteq> ''webp'' \<or> sharp e = None)"
    for j now rnd
  proof -
    have s: "select_source e w (Some segUrl) (j_filename j) =
              Inr (Send segBuffer (mime (the (detectMimeFromBuffer segBuffer)))
                     (detectMimeFromBuffer segBuffer))"
      using sel h by simp
    have c: "convert_webp e (detectMimeFromBuffer segBuffer) segBuffer
               (mime (the (detectMimeFromBuffer segBuffer)))
             = (segBuffer, mime (the (detectMimeFromBuffer segBuffer)))"
      by (rule convert_webp_same) (use h in simp)
    show ?thesis
      using background_sends [OF _ s, of now rnd] h c by simp
  qed
  have org: "map_option input_image (bg_sent (background e w j (Some segUrl) now rnd))
                = Some origBuf"
    if h: "connects e \<and> j_filename j = orig \<and> \<not> is_image (detectMimeFromBuffer segBuffer)
            \<and> is_image (detectMimeFromBuffer origBuf)"
    for j now rnd
  proof -
    have s: "select_source e w (Some segUrl) (j_filename j) =
              Inr (Send origBuf (mime (the (detectMimeFromBuffer origBuf)))
                     (detectMimeFromBuffer segBuffer))"
      using sel h by simp
    have c: "convert_webp e (detectMimeFromBuffer segBuffer) origBuf
               (mime (the (detectMimeFromBuffer origBuf)))
             = (origBuf, mime (the (detectMimeFromBuffer origBuf)))"
      by (rule convert_webp_same) (use h in simp)
    show ?thesis
      using background_sends [OF _ s, of now rnd] h c by simp
  qed
  have conv: "convert_webp e (detectMimeFromBuffer b) buf m = (buf, m)"
    if "\<not> is_image (detectMimeFromBuffer b) \<or> ext (the (detectMimeFromBuffer b)) \<noteq> ''webp''
              \<or> sharp e = None" for b buf m
    using that by (rule convert_webp_same)
  show ?thesis
    apply (rule conjI [OF choice [THEN conjunct1]])
    apply (rule conjI [OF choice [THEN conjunct2, THEN conjunct1]])
    apply (rule conjI [OF choice [THEN conjunct2, THEN conjunct2, THEN conjunct1]])
    apply (rule conjI [OF choice [THEN conjunct2, THEN conjunct2, THEN conjunct2, THEN conjunct1]])
    apply (rule conjI [OF choice [THEN conjunct2, THEN conjunct2, THEN conjunct2, THEN conjunct2]])
    apply (rule conjI [OF is_image_detect])
    apply (rule conjI)
     apply (intro allI impI)
     apply (erule link)
    apply (rule conjI)
     apply (intro allI impI)
     apply (erule seg)
    apply (rule conjI)
     apply (intro allI impI)
     apply (erule org)
    apply (rule conjI)
     apply (intro allI impI)
     apply (erule conv)
    apply (intro allI impI)
    apply (erule ab)
    done
qed

theorem select_source_prefers_segmented_witness:
  "select_source env0
     (sample_world\<lparr>imagesDir := (imagesDir sample_world)(''processed-3-4.txt'' \<mapsto> utf8 ''hello'')\<rparr>)
     (Some ''http://localhost:5000/uploads/images/processed-3-4.txt'') ''1-2.png''
   = Inr (Send png_bytes ''image/png'' None)
   \<and> map_option input_image (bg_sent (background env0
       (sample_world\<lparr>imagesDir := (imagesDir sample_world)(''processed-3-4.txt'' \<mapsto> utf8 ''hello'')\<rparr>)
       sample_job (Some ''http://localhost:5000/uploads/images/processed-3-4.txt'') 3 4))
     = Some png_bytes"
proof -
  let ?w = "sample_world\<lparr>imagesDir := (imagesDir sample_world)(''processed-3-4.txt'' \<mapsto> utf8 ''hello'')\<rparr>"
  have b: "url_base env0 ''http://localhost:5000/uploads/images/processed-3-4.txt''
             = Some ''processed-3-4.txt''"
    by (simp add: env0_def basename_def)
  have s: "imagesDir ?w ''processed-3-4.txt'' = Some (utf8 ''hello'')"
    by simp
  have o: "imagesDir ?w ''1-2.png'' = Some png_bytes"
    by (simp add: sample_world_def)
  have d1: "detectMimeFromBuffer (utf8 ''hello'') = None"
    by (simp add: detectMimeFromBuffer_def utf8_def)
  have d2: "detectMimeFromBuffer png_bytes = Some \<lparr>mime = ''image/png'', ext = ''png''\<rparr>"
    by (simp add: detectMimeFromBuffer_def png_bytes_def)
  have c: "connects env0" and j: "j_filename sample_job = ''1-2.png''"
    by (simp_all add: env0_def sample_job_def)
  note t = select_source_prefers_segmented [OF _ b s o]
  have t1: "select_source env0 ?w (Some ''http://localhost:5000/uploads/images/processed-3-4.txt'')
              ''1-2.png'' = Inr (Send png_bytes ''image/png'' None)"
    using t by (simp add: d1 d2 is_image_def startsWith_def)
  have t2: "\<forall>j now rnd.
            connects env0 \<and> j_filename j = ''1-2.png''
            \<and> \<not> is_image (detectMimeFromBuffer (utf8 ''hello''))
            \<and> is_image (detectMimeFromBuffer png_bytes) \<longrightarrow>
              map_option input_image (bg_sent (background env0 ?w j
                (Some ''http://localhost:5000/uploads/images/processed-3-4.txt'') now rnd))
                = Some png_bytes"
    using t by blast
  have "map_option input_image (bg_sent (background env0 ?w sample_job
          (Some ''http://localhost:5000/uploads/images/processed-3-4.txt'') 3 4)) = Some png_bytes"
    using t2 [rule_format, of sample_job 3 4] c j
    by (simp add: d1 d2 is_image_def startsWith_def)
  then show ?thesis using t1 by simp
qed

subsection \<open>What Phase 2 leaves of the records\<close>

text \<open>
  C8. Phase 2 as a whole (seed resolution, choice of the image, the mesh call whether it
  succeeds or fails, the abort) leaves every record of every user at rest with the
  \<^verbatim>\<open>meta\<close> (so the \<^verbatim>\<open>segmentedImage\<close>), id, image locator and creation
  date it had. The records of a user are either all as they were, or, for the user of the
  upload, as they were except that the asset of the upload has \<^verbatim>\<open>glbUrl\<close> and
  \<^verbatim>\<open>status\<close> assigned; that is all the update after a produced mesh stores of
  its four assignments (\<^verbatim>\<open>updatedAt\<close> and \<^verbatim>\<open>generatedAt\<close> are no paths
  of the schema).
\<close>

theorem segmented_image_survives_phase2:
  assumes "r = background e w j u now rnd"
    and "w' = commit (bg_world r) (j_uid j) (bg_write r)"
    and "users w uid = Some as"
  shows "\<exists>as'. users w' uid = Some as'
           \<and> map meta as' = map meta as \<and> map aid as' = map aid as
           \<and> map imageUrl as' = map imageUrl as \<and> map createdAt as' = map createdAt as
           \<and> (as' = as
              \<or> (uid = j_uid j
                 \<and> (\<exists>sub url. by_id as (j_assetId j) = Some sub
                       \<and> set_glb sub url now = sub\<lparr>glbUrl := Some url, status := Ready\<rparr>
                       \<and> as' = put_asset as (sub\<lparr>glbUrl := Some url, status := Ready\<rparr>))))"
proof -
  from background_writes [of e w j u now rnd] assms(1)
  have bu: "users (bg_world r) = users w"
    and bw: "bg_write r = NoSave
      \<or> (\<exists>as sub url. users w (j_uid j) = Some as \<and> by_id as (j_assetId j) = Some sub
            \<and> bg_write r = Save (put_asset as (set_glb sub url now)))"
    by simp_all
  from bw show ?thesis
  proof
    assume "bg_write r = NoSave"
    then have "users w' uid = Some as" using assms(2,3) bu by simp
    then show ?thesis by simp
  next
    assume "\<exists>as sub url. users w (j_uid j) = Some as \<and> by_id as (j_assetId j) = Some sub
            \<and> bg_write r = Save (put_asset as (set_glb sub url now))"
    then obtain bs sub url where b: "users w (j_uid j) = Some bs"
      and s: "by_id bs (j_assetId j) = Some sub"
      and d: "bg_write r = Save (put_asset bs (set_glb sub url now))"
      by blast
    show ?thesis
    proof (cases "uid = j_uid j")
      case False
      then have "users w' uid = Some as" using assms(2,3) bu d by simp
      then show ?thesis by simp
    next
      case True
      then have e: "bs = as" using b assms(3) by simp
      have i: "aid (set_glb sub url now) = j_assetId j"
        using by_id_aid [OF s] by (simp add: set_glb_eq)
      have m: "map meta (put_asset as (set_glb sub url now)) = map meta as"
        "map aid (put_asset as (set_glb sub url now)) = map aid as"
        "map imageUrl (put_asset as (set_glb sub url now)) = map imageUrl as"
        "map createdAt (put_asset as (set_glb sub url now)) = map createdAt as"
        by (rule put_asset_map [OF s [unfolded e] i], simp add: set_glb_eq)+
      have "users w' uid = Some (put_asset as (set_glb sub url now))"
        using assms(2) bu d True e by simp
      then show ?thesis
        using m s e True set_glb_eq [of sub url now] by auto
    qed
  qed
qed

lemma background_two:
  "users (commit (bg_world (background (env0\<lparr>process_3d := process_3d_glb\<rparr>) world_two
                              sample_job None 3 4)) 1
            (bg_write (background (env0\<lparr>process_3d := process_3d_glb\<rparr>) world_two
                              sample_job None 3 4))) 1
     = Some [other_asset,
             segmented_asset\<lparr>glbUrl := Some ''http://localhost:5000/uploads/glb/generated-3-4.glb'',
                             status := Ready\<rparr>]"
  by (simp add: background_def select_source_def world_two_def sample_world_def
      detectMimeFromBuffer_def png_bytes_def is_image_def startsWith_def convert_webp_def
      process_3d_glb_def normalize_glb_def saveBufferAsGlb_def show_nat_3 show_nat_4
      glb_url_def attach_generated_def by_id_def sample_job_def sample_asset_def
      segmented_asset_def other_asset_def save_fresh_def tracked_def set_glb_eq env0_def Let_def)

theorem segmented_image_survives_phase2_witness:
  "users world_two 1 = Some [other_asset, segmented_asset]
   \<and> users (commit (bg_world (background (env0\<lparr>process_3d := process_3d_glb\<rparr>) world_two
                                sample_job None 3 4)) 1
              (bg_write (background (env0\<lparr>process_3d := process_3d_glb\<rparr>) world_two
                                sample_job None 3 4))) 1
       = Some [other_asset,
               segmented_asset\<lparr>glbUrl := Some ''http://localhost:5000/uploads/glb/generated-3-4.glb'',
                               status := Ready\<rparr>]
   \<and> map (\<lambda>a. segmentedImage (meta a))
        [other_asset,
         segmented_asset\<lparr>glbUrl := Some ''http://localhost:5000/uploads/glb/generated-3-4.glb'',
                         status := Ready\<rparr>]
       = [Some ''http://localhost:5000/uploads/images/processed-9-9.png'',
          Some ''http://localhost:5000/uploads/images/processed-2-2.png'']"
proof -
  let ?d = "[other_asset,
             segmented_asset\<lparr>glbUrl := Some ''http://localhost:5000/uploads/glb/generated-3-4.glb'',
                             status := Ready\<rparr>]"
  have u: "users world_two 1 = Some [other_asset, segmented_asset]"
    by (simp add: world_two_def)
  have j: "j_uid sample_job = 1" by (simp add: sample_job_def)
  from segmented_image_survives_phase2 [OF refl refl, where e = "env0\<lparr>process_3d := process_3d_glb\<rparr>"
      and w = world_two and j = sample_job and u = None and now = 3 and rnd = 4 and uid = 1, OF u]
    background_two j
  have "map meta ?d = map meta [other_asset, segmented_asset]"
    by auto
  then have "map (\<lambda>a. segmentedImage (meta a)) ?d
               = map (\<lambda>a. segmentedImage (meta a)) [other_asset, segmented_asset]"
    by simp
  then show ?thesis
    using u background_two by (simp add: other_asset_def segmented_asset_def)
qed

subsection \<open>The invariant of records at rest\<close>

lemma all_records_update:
  "all_records P w \<Longrightarrow> list_all P d \<Longrightarrow> users w' = (users w)(uid \<mapsto> d) \<Longrightarrow> all_records P w'"
  by (simp add: all_records_def)

lemma all_records_users: "all_records P w \<Longrightarrow> users w' = users w \<Longrightarrow> all_records P w'"
  by (simp add: all_records_def)

lemma list_all_put: "list_all P as \<Longrightarrow> P a \<Longrightarrow> list_all P (put_asset as a)"
  by (induction as) auto

lemma glb_iff_ready_set_glb: "glb_iff_ready (set_glb a url now)"
  by (simp add: glb_iff_ready_def set_glb_eq)

lemma upload_image_keeps:
  assumes "all_records glb_iff_ready w" and "upload_image w req new_id now = Inr (a, w')"
  shows "all_records glb_iff_ready w'"
proof -
  from assms(2) obtain name as where u: "users w (userId req) = Some as"
    and w': "users w' = (users w)(userId req \<mapsto> a # as)" and a: "glb_iff_ready a"
    by (auto simp: upload_image_def glb_iff_ready_def Let_def split: option.splits)
  have "list_all glb_iff_ready as" using assms(1) u by (simp add: all_records_def)
  then show ?thesis using all_records_update [OF assms(1) _ w'] a by simp
qed

lemma attach_glb_keeps:
  assumes "all_records glb_iff_ready w" and "attach_glb w req i now = Inr (a, w')"
  shows "all_records glb_iff_ready w'"
proof -
  from assms(2) obtain as sub url where u: "users w (userId req) = Some as"
    and s: "by_id as i = Some sub"
    and w': "w' = commit w (userId req) (save_fresh as sub (set_glb sub url now))"
    by (auto simp: attach_glb_def Let_def split: option.splits if_splits jsval.splits)
  have w2: "users w' = (users w)(userId req \<mapsto> put_asset as (set_glb sub url now))"
    unfolding w' commit_save_fresh_set_glb [OF u s] by simp
  have "list_all glb_iff_ready as" using assms(1) u by (simp add: all_records_def)
  then have "list_all glb_iff_ready (put_asset as (set_glb sub url now))"
    by (simp add: list_all_put glb_iff_ready_set_glb)
  then show ?thesis using all_records_update [OF assms(1) _ w2] by simp
qed

lemma delete_asset_keeps:
  assumes "all_records glb_iff_ready w" and "delete_asset w uid i = Inr w'"
  shows "all_records glb_iff_ready w'"
proof -
  from assms(2) obtain as where u: "users w uid = Some as"
    and w': "users w' = (users w)(uid \<mapsto> filter (\<lambda>b. aid b \<noteq> i) as)"
    by (auto simp: delete_asset_def split: option.splits)
  have "list_all glb_iff_ready as" using assms(1) u by (simp add: all_records_def)
  then show ?thesis using all_records_update [OF assms(1) _ w'] by (simp add: list_all_iff)
qed

lemma begin_upload_keeps:
  assumes "all_records glb_iff_ready w" and "begin_upload e w req new_id now = Inr (j, w')"
  shows "all_records glb_iff_ready w'"
proof -
  from assms(2) obtain as uid where u: "users w uid = Some as"
    and w': "users w' = (users w)(uid \<mapsto> as @ [j_created j])"
    and a: "glb_iff_ready (j_created j)"
    by (auto simp: begin_upload_def glb_iff_ready_def Let_def split: option.splits prod.splits)
  have "list_all glb_iff_ready as" using assms(1) u by (simp add: all_records_def)
  then show ?thesis using all_records_update [OF assms(1) _ w'] a by simp
qed

lemma reachable_all_records: "reachable w \<Longrightarrow> all_records glb_iff_ready w"
proof (induction rule: reachable.induct)
  case (start w)
  have "list_all glb_iff_ready as" if "users w uid = Some as" for uid as
  proof -
    from that have "as \<in> ran (users w)" by (auto simp: ran_def)
    with start have "as = []" by blast
    then show ?thesis by simp
  qed
  then show ?case by (simp add: all_records_def)
next
  case (register w uid)
  then show ?case by (simp add: all_records_def)
next
  case (files w di dg)
  then show ?case by (simp add: all_records_def)
next
  case (upload_image w req new_id now a w')
  then show ?case using upload_image_keeps by blast
next
  case (attach_glb w req assetId now a w')
  then show ?case using attach_glb_keeps by blast
next
  case (delete_asset w uid assetId w')
  then show ?case using delete_asset_keeps by blast
next
  case (begin_upload w e req new_id now j w')
  then show ?case using begin_upload_keeps by blast
next
  case (segment_step w w0 e0 req new_id t0 j w1 r e now rnd)
  have "users (commit (sr_world r) (j_uid j) (sr_write r)) = users w"
    using segment_step_writes [of e w j now rnd] segment_step.hyps(4) by simp
  then show ?case using segment_step.IH(1) by (rule all_records_users [rotated])
next
  case (background w w0 e0 req new_id t0 j w1 r e segmentedImageUrl now rnd)
  have w: "all_records glb_iff_ready w" by (rule background.IH(1))
  from background_writes [of e w j segmentedImageUrl now rnd] background.hyps(4)
  have bu: "users (bg_world r) = users w" by simp
  from background_writes [of e w j segmentedImageUrl now rnd] background.hyps(4)
  consider "bg_write r = NoSave"
    | as sub url where "users w (j_uid j) = Some as" "by_id as (j_assetId j) = Some sub"
        "bg_write r = Save (put_asset as (set_glb sub url now))"
    by blast
  then show ?case
  proof cases
    case 1
    then have "users (commit (bg_world r) (j_uid j) (bg_write r)) = users w"
      using bu by simp
    then show ?thesis using w by (rule all_records_users [rotated])
  next
    case 2
    have "list_all glb_iff_ready as" using w 2(1) by (simp add: all_records_def)
    then have l: "list_all glb_iff_ready (put_asset as (set_glb sub url now))"
      by (simp add: list_all_put glb_iff_ready_set_glb)
    have "users (commit (bg_world r) (j_uid j) (bg_write r))
            = (users w)(j_uid j \<mapsto> put_asset as (set_glb sub url now))"
      using 2(3) bu by simp
    then show ?thesis using all_records_update [OF w l] by blast
  qed
qed

text \<open>
  C1. In every world the operations lead to (the two routes that create an asset,
  attach-glb, deletion, the segmentation step and the background function of an upload,
  with what their saves send), every asset of every user has a GLB locator exactly when
  its status is ready.
\<close>

theorem glb_url_iff_ready:
  assumes "reachable w" and "users w uid = Some as" and "a \<in> set as"
  shows "(glbUrl a \<noteq> None) = (status a = Ready)"
  using reachable_all_records [OF assms(1)] assms(2,3)
  by (auto simp: all_records_def glb_iff_ready_def list_all_iff)

theorem glb_url_iff_ready_witness:
  "reachable world_ready \<and> users world_ready 1 = Some [ready_asset]
   \<and> ready_asset \<in> set [ready_asset]
   \<and> (glbUrl ready_asset \<noteq> None) = (status ready_asset = Ready)"
proof -
  have s: "reachable world_start"
    by (rule reachable.start) (simp add: world_start_def)
  have "upload_image world_start
          \<lparr>userId = 1, protocol = ''http'', host = ''h'', file_name = Some ''1-2.png'',
           body_glbUrl = Prim VUndefined\<rparr> 7 100
        = Inr (ready_asset\<lparr>glbUrl := None, status := Pending\<rparr>,
               world_start\<lparr>users := [1 \<mapsto> [ready_asset\<lparr>glbUrl := None, status := Pending\<rparr>]]\<rparr>)"
    by (simp add: upload_image_def world_start_def ready_asset_def image_url_def Let_def)
  then have p: "reachable (world_start\<lparr>users := [1 \<mapsto> [ready_asset\<lparr>glbUrl := None,
                    status := Pending\<rparr>]]\<rparr>)"
    using reachable.upload_image [OF s] by blast
  have "attach_glb (world_start\<lparr>users := [1 \<mapsto> [ready_asset\<lparr>glbUrl := None,
                    status := Pending\<rparr>]]\<rparr>)
          \<lparr>userId = 1, protocol = ''http'', host = ''h'', file_name = None,
           body_glbUrl = Prim (VStr ''http://cdn/m.glb'')\<rparr> 7 200
        = Inr (ready_asset, world_ready)"
    by (simp add: attach_glb_def world_start_def world_ready_def ready_asset_def by_id_def
        save_fresh_def tracked_def set_glb_eq Let_def)
  then have r: "reachable world_ready"
    using reachable.attach_glb [OF p] by blast
  have u: "users world_ready 1 = Some [ready_asset]"
    by (simp add: world_ready_def)
  show ?thesis
    using r u glb_url_iff_ready [OF r u, of ready_asset] by simp
qed

end
